theory Spec2Isabelle
  imports Main
begin

section \<open>Python text primitives used by \<open>main.py\<close>\<close>

text \<open>
  Python \<open>str\<close> values are modelled as \<open>string\<close>; one \<open>char\<close> stands for one
  character of the text, so \<open>length\<close> is Python's \<open>len\<close>. Indices and lengths that the
  source compares with each other are \<open>int\<close>, because \<open>str.rfind\<close> answers \<open>-1\<close>.
\<close>

text \<open>\<open>s.rfind(c)\<close> for a one-character needle: the highest index of \<open>c\<close>, or \<open>-1\<close>.\<close>

fun rfind :: "string \<Rightarrow> char \<Rightarrow> int" where
  "rfind [] c = -1"
| "rfind (x # xs) c =
     (let r = rfind xs c in if 0 \<le> r then r + 1 else if x = c then 0 else -1)"

text \<open>\<open>s[:k]\<close>: a negative bound counts from the end of the text.\<close>

definition slice_to :: "string \<Rightarrow> int \<Rightarrow> string" where
  "slice_to s k = (if 0 \<le> k then take (nat k) s else take (nat (int (length s) + k)) s)"

text \<open>\<open>s[-n:]\<close> on a list, for \<open>n > 0\<close>: the last \<open>n\<close> elements, all of them if there are fewer.\<close>

definition last_n :: "nat \<Rightarrow> 'a list \<Rightarrow> 'a list" where
  "last_n n xs = drop (length xs - n) xs"

text \<open>Python's \<open>max\<close> of three integers.\<close>

definition max3 :: "int \<Rightarrow> int \<Rightarrow> int \<Rightarrow> int" where
  "max3 a b c = max (max a b) c"

section \<open>Truncation before speech synthesis\<close>

definition MAX_MURF_CHARS :: int where
  "MAX_MURF_CHARS = 3000"

text \<open>
  Both call sites compare an index with \<open>MAX_MURF_CHARS * 0.8\<close> (and \<open>* 0.9\<close>), a
  binary64 product. For the only budget the source uses, 3000, the products are exactly
  \<open>2400.0\<close> and \<open>2700.0\<close>, so the comparison \<open>i > max_chars * 0.8\<close> of an integer
  \<open>i\<close> is the integer comparison \<open>10 * i > 8 * max_chars\<close>. The functions take the
  budget as a parameter; the endpoints pass \<open>MAX_MURF_CHARS\<close>.
\<close>

text \<open>
  Lines 902-916 of \<open>chat_with_history\<close> (STEP 4):
  \<^verbatim>\<open>
  if len(tts_text) > MAX_MURF_CHARS:
      truncated = tts_text[:MAX_MURF_CHARS]
      last_sentence = max(truncated.rfind('.'), truncated.rfind('!'), truncated.rfind('?'))
      if last_sentence > MAX_MURF_CHARS * 0.8:
          tts_text = truncated[:last_sentence + 1]
      else:
          last_space = truncated.rfind(' ')
          tts_text = truncated[:last_space] if last_space > 0 else truncated
          tts_text += "..."
  \<close>
\<close>

definition truncate_chat :: "int \<Rightarrow> string \<Rightarrow> string" where
  "truncate_chat max_chars tts_text =
     (if int (length tts_text) > max_chars then
        (let truncated = slice_to tts_text max_chars;
             last_sentence = max3 (rfind truncated CHR ''.'') (rfind truncated CHR ''!'')
                                  (rfind truncated CHR ''?'')
         in if 10 * last_sentence > 8 * max_chars then slice_to truncated (last_sentence + 1)
            else (let last_space = rfind truncated CHR '' ''
                  in (if last_space > 0 then slice_to truncated last_space else truncated)
                     @ ''...''))
      else tts_text)"

text \<open>
  Lines 702-722 of \<open>query_llm\<close>:
  \<^verbatim>\<open>
  if len(llm_text) > MAX_MURF_CHARS:
      truncated_text = llm_text[:MAX_MURF_CHARS]
      last_period = truncated_text.rfind('.')
      last_exclamation = truncated_text.rfind('!')
      last_question = truncated_text.rfind('?')
      last_sentence_end = max(last_period, last_exclamation, last_question)
      if last_sentence_end > MAX_MURF_CHARS * 0.8:
          llm_text = truncated_text[:last_sentence_end + 1]
      else:
          last_space = truncated_text.rfind(' ')
          if last_space > MAX_MURF_CHARS * 0.9:
              llm_text = truncated_text[:last_space] + "..."
          else:
              llm_text = truncated_text + "..."
  \<close>
\<close>

definition truncate_query :: "int \<Rightarrow> string \<Rightarrow> string" where
  "truncate_query max_chars llm_text =
     (if int (length llm_text) > max_chars then
        (let truncated_text = slice_to llm_text max_chars;
             last_period = rfind truncated_text CHR ''.'';
             last_exclamation = rfind truncated_text CHR ''!'';
             last_question = rfind truncated_text CHR ''?'';
             last_sentence_end = max3 last_period last_exclamation last_question
         in if 10 * last_sentence_end > 8 * max_chars
            then slice_to truncated_text (last_sentence_end + 1)
            else (let last_space = rfind truncated_text CHR '' ''
                  in if 10 * last_space > 9 * max_chars
                     then slice_to truncated_text last_space @ ''...''
                     else truncated_text @ ''...''))
      else llm_text)"


section \<open>Configuration and fallback texts\<close>

definition MAX_HISTORY_MESSAGES :: nat where
  "MAX_HISTORY_MESSAGES = 20"

text \<open>The five keys of the \<open>FALLBACK_MESSAGES\<close> dictionary, a closed set of string constants.\<close>

datatype error_class = Stt_error | Llm_error | Tts_error | Connection_error | General_error

fun FALLBACK_MESSAGES :: "error_class \<Rightarrow> string" where
  "FALLBACK_MESSAGES Stt_error =
     ''I'm having trouble hearing you right now. Please check your microphone and try again.''"
| "FALLBACK_MESSAGES Llm_error =
     ''I'm having trouble thinking right now. My AI brain needs a moment to reconnect.''"
| "FALLBACK_MESSAGES Tts_error =
     ''I'm having trouble speaking right now, but I can still understand you.''"
| "FALLBACK_MESSAGES Connection_error =
     ''I'm having trouble connecting to my services right now. Please try again in a moment.''"
| "FALLBACK_MESSAGES General_error =
     ''Something went wrong on my end. Let me try to help you differently.''"

subsection \<open>More text primitives\<close>

text \<open>\<open>s.startswith(p)\<close> and the substring test \<open>sub in s\<close>.\<close>

fun startswith :: "string \<Rightarrow> string \<Rightarrow> bool" where
  "startswith s [] = True"
| "startswith [] (p # ps) = False"
| "startswith (c # cs) (p # ps) = (c = p \<and> startswith cs ps)"

fun py_in :: "string \<Rightarrow> string \<Rightarrow> bool" where
  "py_in sub [] = (sub = [])"
| "py_in sub (c # cs) = (startswith (c # cs) sub \<or> py_in sub cs)"

text \<open>
  \<open>str.lower\<close> and \<open>str.strip\<close> on the characters a \<open>char\<close> can hold (code points below
  256): the upper-case letters are A-Z and U+00C0-U+00DE without the multiplication sign;
  the white space is U+0009-U+000D, U+001C-U+0020, U+0085 and U+00A0.
\<close>

definition lower_char :: "char \<Rightarrow> char" where
  "lower_char c =
     (let n = (of_char c :: nat)
      in if (65 \<le> n \<and> n \<le> 90) \<or> (192 \<le> n \<and> n \<le> 222 \<and> n \<noteq> 215)
         then char_of (n + 32) else c)"

definition lower :: "string \<Rightarrow> string" where
  "lower s = map lower_char s"

definition isspace :: "char \<Rightarrow> bool" where
  "isspace c =
     (let n = (of_char c :: nat)
      in (9 \<le> n \<and> n \<le> 13) \<or> (28 \<le> n \<and> n \<le> 32) \<or> n = 133 \<or> n = 160)"

definition strip :: "string \<Rightarrow> string" where
  "strip s = rev (dropWhile isspace (rev (dropWhile isspace s)))"

text \<open>\<open>sep.join(parts)\<close>.\<close>

fun join :: "string \<Rightarrow> string list \<Rightarrow> string" where
  "join sep [] = []"
| "join sep [p] = p"
| "join sep (p # q # ps) = p @ sep @ join sep (q # ps)"

text \<open>\<open>str(n)\<close> for a length.\<close>

fun str_nat :: "nat \<Rightarrow> string" where
  "str_nat n =
     (if n < 10 then [''0123456789'' ! n]
      else str_nat (n div 10) @ [''0123456789'' ! (n mod 10)])"

section \<open>The three services\<close>

text \<open>
  The SDK clients are outside the program. A call to one either raises (the model keeps
  \<open>str(e)\<close>) or returns an object; a client is \<open>None\<close> when its API key is missing.
\<close>

datatype 'a call = Raises string | Returns 'a

type_synonym bytes = "char list"

text \<open>
  The AssemblyAI transcript: whether \<open>status\<close> is \<open>TranscriptStatus.error\<close>, the
  rendering of \<open>error\<close> in the f-string, and \<open>text\<close>.
\<close>

record transcript_obj =
  status_is_error :: bool
  error_text :: string
  text_attr :: "string option"

text \<open>
  The Murf response, by the attribute the \<open>hasattr\<close> chain finds first: \<open>audio_url\<close>
  (taken as it is), else \<open>str(audio_file)\<close>, else \<open>str(response)\<close>.
\<close>

datatype murf_response =
    Has_audio_url "string option"
  | Has_audio_file string
  | Plain string

text \<open>
  The places of the \<open>try\<close> block of \<open>chat_with_history\<close> where the model lets an
  exception surface that no \<open>safe_\<close> wrapper catches: the read of the upload (line 822)
  and the statements that open STEP 2 to STEP 6 (lines 857, 877, 898, 921, 941) and the
  final report (line 970).
\<close>

datatype fault_point = Read_audio | Step2 | Step3 | Step4 | Step5 | Step6 | Final_report

text \<open>
  Everything a turn takes from outside the program: the three clients, the two readings of
  \<open>datetime.now().isoformat()\<close> (lines 853 and 894), and the text of an unexpected
  exception at each fault point, if one is raised there.
\<close>

record env =
  murf_client :: "(string \<Rightarrow> string \<Rightarrow> string \<Rightarrow> murf_response call) option"
  aai_transcriber :: "(bytes \<Rightarrow> transcript_obj call) option"
  gemini_client :: "(string \<Rightarrow> string option call) option"
  now_user :: string
  now_assistant :: string
  unexpected :: "fault_point \<Rightarrow> string option"

text \<open>Truth value of an \<open>Optional[str]\<close> in a condition: \<open>None\<close> and \<open>""\<close> are false.\<close>

fun truthy :: "string option \<Rightarrow> bool" where
  "truthy None = False"
| "truthy (Some s) = (s \<noteq> [])"

definition get_error_type :: "string \<Rightarrow> error_class" where
  "get_error_type exception =
     (let error_str = lower exception
      in if py_in ''assemblyai'' error_str \<or> py_in ''transcription'' error_str
            \<or> py_in ''speech'' error_str then Stt_error
         else if py_in ''gemini'' error_str \<or> py_in ''llm'' error_str
            \<or> py_in ''generate_content'' error_str then Llm_error
         else if py_in ''murf'' error_str \<or> py_in ''tts'' error_str
            \<or> py_in ''text_to_speech'' error_str then Tts_error
         else if py_in ''connection'' error_str \<or> py_in ''network'' error_str
            \<or> py_in ''timeout'' error_str then Connection_error
         else General_error)"

fun extract_audio_url :: "murf_response \<Rightarrow> string option" where
  "extract_audio_url (Has_audio_url u) = u"
| "extract_audio_url (Has_audio_file f) = Some f"
| "extract_audio_url (Plain r) = Some r"

definition generate_fallback_tts :: "env \<Rightarrow> string \<Rightarrow> string \<Rightarrow> string \<Rightarrow> string option" where
  "generate_fallback_tts e message_text voice style =
     (case murf_client e of
        None \<Rightarrow> None
      | Some murf \<Rightarrow>
          (case murf message_text voice style of
             Raises err \<Rightarrow> None
           | Returns response \<Rightarrow> extract_audio_url response))"

definition safe_transcribe_audio :: "env \<Rightarrow> bytes \<Rightarrow> string option \<times> string option" where
  "safe_transcribe_audio e audio_data =
     (case aai_transcriber e of
        None \<Rightarrow> (None, Some ''Speech-to-text service is not available'')
      | Some transcriber \<Rightarrow>
          (case transcriber audio_data of
             Raises err \<Rightarrow> (None, Some (''Transcription error: '' @ err))
           | Returns tr \<Rightarrow>
               if status_is_error tr
               then (None, Some (''Transcription failed: '' @ error_text tr))
               else (case text_attr tr of
                       None \<Rightarrow> (None, Some ''No speech detected in the audio'')
                     | Some t \<Rightarrow>
                         if t = [] \<or> length (strip t) = 0
                         then (None, Some ''No speech detected in the audio'')
                         else (Some (strip t), None))))"

definition safe_generate_llm_response :: "env \<Rightarrow> string \<Rightarrow> string option \<times> string option" where
  "safe_generate_llm_response e prompt =
     (case gemini_client e of
        None \<Rightarrow> (None, Some ''AI language model is not available'')
      | Some gemini \<Rightarrow>
          (case gemini prompt of
             Raises err \<Rightarrow> (None, Some (''AI response error: '' @ err))
           | Returns None \<Rightarrow> (None, Some ''AI did not generate a response'')
           | Returns (Some t) \<Rightarrow>
               if t = [] then (None, Some ''AI did not generate a response'')
               else (Some (strip t), None)))"

definition safe_generate_tts ::
  "env \<Rightarrow> string \<Rightarrow> string \<Rightarrow> string \<Rightarrow> string option \<times> string option" where
  "safe_generate_tts e tts_text voice style =
     (case murf_client e of
        None \<Rightarrow> (None, Some ''Text-to-speech service is not available'')
      | Some murf \<Rightarrow>
          (case murf tts_text voice style of
             Raises err \<Rightarrow> (None, Some (''Text-to-speech error: '' @ err))
           | Returns response \<Rightarrow> (extract_audio_url response, None)))"


section \<open>The session store\<close>

text \<open>
  \<open>chat_sessions\<close> is a \<open>defaultdict(list)\<close> from session id to a list of message
  dictionaries with the keys \<open>role\<close>, \<open>content\<close> and \<open>timestamp\<close>.
\<close>

record message =
  role :: string
  content :: string
  timestamp :: string

type_synonym store = "string \<rightharpoonup> message list"

text \<open>
  \<open>chat_sessions[session_id]\<close>: subscripting a \<open>defaultdict\<close> with a missing key stores
  the default, an empty list, under that key and answers it.
\<close>

definition getitem :: "store \<Rightarrow> string \<Rightarrow> store \<times> message list" where
  "getitem s sid = (case s sid of None \<Rightarrow> (s(sid \<mapsto> []), []) | Some h \<Rightarrow> (s, h))"

text \<open>\<open>chat_sessions[session_id].append(m)\<close>.\<close>

definition append_message :: "store \<Rightarrow> string \<Rightarrow> message \<Rightarrow> store" where
  "append_message s sid m = (case getitem s sid of (s1, h) \<Rightarrow> s1(sid \<mapsto> h @ [m]))"

text \<open>
  Lines 944-945:
  \<^verbatim>\<open>
  if len(chat_sessions[session_id]) > MAX_HISTORY_MESSAGES * 2:
      chat_sessions[session_id] = chat_sessions[session_id][-MAX_HISTORY_MESSAGES:]
  \<close>
\<close>

definition trim :: "store \<Rightarrow> string \<Rightarrow> store" where
  "trim s sid =
     (case getitem s sid of
        (s1, h) \<Rightarrow>
          if length h > MAX_HISTORY_MESSAGES * 2
          then (case getitem s1 sid of (s2, h2) \<Rightarrow> s2(sid \<mapsto> last_n MAX_HISTORY_MESSAGES h2))
          else s1)"

section \<open>Responses\<close>

record chat_response =
  success :: bool
  message :: string
  audio_url :: "string option"
  transcript :: "string option"
  llm_response :: "string option"
  session_id :: string
  message_count :: nat
  error_type :: "error_class option"
  fallback_used :: bool

text \<open>The endpoints that answer a plain dictionary are modelled with JSON values.\<close>

datatype json = JBool bool | JInt int | JStr string | JList "json list" | JObj "(string \<times> json) list"

definition message_json :: "message \<Rightarrow> json" where
  "message_json m =
     JObj [(''role'', JStr (role m)), (''content'', JStr (content m)),
           (''timestamp'', JStr (timestamp m))]"

text \<open>
  What leaves the \<open>try\<close> block: a returned response, or a raised exception, which is an
  \<open>HTTPException\<close> (status code and detail) or any other \<open>Exception\<close> (with \<open>str(e)\<close>).
\<close>

datatype exn = HTTPException nat string | Unexpected string

datatype flow = Return chat_response | Raise exn

record upload =
  filename :: "string option"
  content_type :: "string option"
  data :: bytes

text \<open>
  The symbols of the status line, as their UTF-8 bytes: U+2705, U+274C, U+1F504 and
  U+26A0 U+FE0F.
\<close>

definition mark_ok :: string where
  "mark_ok = [CHR 0xE2, CHR 0x9C, CHR 0x85]"

definition mark_failed :: string where
  "mark_failed = [CHR 0xE2, CHR 0x9D, CHR 0x8C]"

definition mark_fallback :: string where
  "mark_fallback = [CHR 0xF0, CHR 0x9F, CHR 0x94, CHR 0x84]"

definition mark_warning :: string where
  "mark_warning = [CHR 0xE2, CHR 0x9A, CHR 0xA0, CHR 0xEF, CHR 0xB8, CHR 0x8F]"

section \<open>The chat turn: \<open>chat_with_history\<close>\<close>

text \<open>\<open>str(e)\<close> of the \<open>TypeError\<close> that slicing \<open>None\<close> raises.\<close>

definition none_not_subscriptable :: string where
  "none_not_subscriptable =
     [CHR 0x27] @ ''NoneType'' @ [CHR 0x27] @ '' object is not subscriptable''"

text \<open>
  The stages are defined last to first; each one ends by calling the next, so a stage's
  result is the result of the rest of the \<open>try\<close> block. The local variables of the source
  are the parameters; those that share a name with a field of the response carry a prime.
\<close>

text \<open>STEP 6, lines 940-988: trim the history, build the status line, return the response.\<close>

definition finalize ::
  "env \<Rightarrow> string \<Rightarrow> store \<Rightarrow> string \<Rightarrow> string \<Rightarrow> string option \<Rightarrow> string option
     \<Rightarrow> string option \<Rightarrow> bool \<Rightarrow> error_class option \<Rightarrow> string option \<Rightarrow> store \<times> flow" where
  "finalize e sid s user_message assistant_message transcript_error llm_error tts_error
       fallback_used' error_type' audio_url' =
     (case unexpected e Step6 of
        Some err \<Rightarrow> (s, Raise (Unexpected err))
      | None \<Rightarrow>
          (let s1 = trim s sid
           in case unexpected e Final_report of
                Some err \<Rightarrow> (s1, Raise (Unexpected err))
              | None \<Rightarrow>
                  (let overall_success =
                         (\<not> (truthy transcript_error \<or> (truthy llm_error \<and> \<not> fallback_used')));
                       status_parts =
                         [if truthy transcript_error
                          then mark_failed @ '' Speech recognition failed''
                          else mark_ok @ '' Speech recognized'',
                          if truthy llm_error
                          then mark_fallback @ '' Using fallback response''
                          else mark_ok @ '' AI response generated'',
                          if truthy tts_error
                          then mark_warning @ '' Audio generation failed''
                          else mark_ok @ '' Audio generated''];
                       status_message = join '' | '' status_parts
                   in case getitem s1 sid of
                        (s2, h) \<Rightarrow>
                          (s2, Return \<lparr>success = overall_success, message = status_message,
                                 audio_url = audio_url', transcript = Some user_message,
                                 llm_response = Some assistant_message, session_id = sid,
                                 message_count = length h, error_type = error_type',
                                 fallback_used = fallback_used'\<rparr>))))"

text \<open>
  STEP 5, lines 920-938: choose the voice, call the synthesizer, and classify its failure
  only \<open>if not error_type\<close>.
\<close>

definition synthesize ::
  "env \<Rightarrow> string \<Rightarrow> store \<Rightarrow> string \<Rightarrow> string \<Rightarrow> string option \<Rightarrow> string option
     \<Rightarrow> bool \<Rightarrow> error_class option \<Rightarrow> string \<Rightarrow> store \<times> flow" where
  "synthesize e sid s user_message assistant_message transcript_error llm_error
       fallback_used' error_type' tts_text =
     (case unexpected e Step5 of
        Some err \<Rightarrow> (s, Raise (Unexpected err))
      | None \<Rightarrow>
          (let voice = (if fallback_used' then ''en-US-ken'' else ''en-US-claire'');
               style = (if fallback_used' then ''Neutral'' else ''Cheerful'')
           in case safe_generate_tts e tts_text voice style of
                (audio_url', tts_error) \<Rightarrow>
                  finalize e sid s user_message assistant_message transcript_error llm_error
                    tts_error fallback_used'
                    (if truthy tts_error
                     then (if error_type' = None then Some Tts_error else error_type')
                     else error_type')
                    audio_url'))"

text \<open>STEP 4, lines 897-918: the text handed to the synthesizer.\<close>

definition prepare_tts ::
  "env \<Rightarrow> string \<Rightarrow> store \<Rightarrow> string \<Rightarrow> string \<Rightarrow> string option \<Rightarrow> string option
     \<Rightarrow> bool \<Rightarrow> error_class option \<Rightarrow> store \<times> flow" where
  "prepare_tts e sid s user_message assistant_message transcript_error llm_error
       fallback_used' error_type' =
     (case unexpected e Step4 of
        Some err \<Rightarrow> (s, Raise (Unexpected err))
      | None \<Rightarrow>
          synthesize e sid s user_message assistant_message transcript_error llm_error
            fallback_used' error_type' (truncate_chat MAX_MURF_CHARS assistant_message))"

text \<open>
  STEP 3, lines 876-895: ask the model; on an error the fixed \<open>llm_error\<close> text becomes
  the assistant message. Either way the assistant message is appended to the history.
  Without an error, line 888 slices \<open>assistant_message\<close>, which raises a \<open>TypeError\<close> if it
  is \<open>None\<close>.
\<close>

definition generate ::
  "env \<Rightarrow> string \<Rightarrow> store \<Rightarrow> string \<Rightarrow> string option \<Rightarrow> string \<Rightarrow> store \<times> flow" where
  "generate e sid s user_message transcript_error conversation_prompt =
     (case unexpected e Step3 of
        Some err \<Rightarrow> (s, Raise (Unexpected err))
      | None \<Rightarrow>
          (case safe_generate_llm_response e conversation_prompt of
             (reply, llm_error) \<Rightarrow>
               if truthy llm_error
               then prepare_tts e sid
                      (append_message s sid
                         \<lparr>role = ''assistant'', content = FALLBACK_MESSAGES Llm_error,
                          timestamp = now_assistant e\<rparr>)
                      user_message (FALLBACK_MESSAGES Llm_error) transcript_error llm_error
                      True (Some Llm_error)
               else (case reply of
                       None \<Rightarrow>
                         (s, Raise (Unexpected none_not_subscriptable))
                     | Some assistant_message \<Rightarrow>
                         prepare_tts e sid
                           (append_message s sid
                              \<lparr>role = ''assistant'', content = assistant_message,
                               timestamp = now_assistant e\<rparr>)
                           user_message assistant_message transcript_error llm_error
                           False None)))"

text \<open>STEP 2, lines 856-874: the prompt from the most recent stored messages.\<close>

definition build_prompt :: "message list \<Rightarrow> string" where
  "build_prompt recent_messages =
     foldl (\<lambda>conversation_prompt msg.
              conversation_prompt
              @ (if role msg = ''user'' then ''User'' else ''Assistant'')
              @ '': '' @ content msg @ [CHR 0x0A, CHR 0x0A])
           (''You are a helpful AI assistant. Here is our conversation so far:''
              @ [CHR 0x0A, CHR 0x0A])
           recent_messages
     @ (if length recent_messages > 1
        then ''Please continue our conversation naturally, remembering what we discussed earlier.''
               @ [CHR 0x0A]
        else [])"

definition prepare_context ::
  "env \<Rightarrow> string \<Rightarrow> store \<Rightarrow> string \<Rightarrow> string option \<Rightarrow> store \<times> flow" where
  "prepare_context e sid s user_message transcript_error =
     (case unexpected e Step2 of
        Some err \<Rightarrow> (s, Raise (Unexpected err))
      | None \<Rightarrow>
          (case getitem s sid of
             (s1, h) \<Rightarrow>
               generate e sid s1 user_message transcript_error
                 (build_prompt (last_n MAX_HISTORY_MESSAGES h))))"

text \<open>
  Lines 807-854: the session entry is touched by the report of line 810, the content type
  is checked, the upload is read and transcribed. A transcription error returns the
  \<open>stt_error\<close> response at once; otherwise the user message is appended. The second
  component of the result is \<open>user_message\<close> as the handler of line 995 would find it.
\<close>

definition transcribe ::
  "env \<Rightarrow> string \<Rightarrow> store \<Rightarrow> upload \<Rightarrow> store \<times> string option \<times> flow" where
  "transcribe e sid s audio_file =
     (case getitem s sid of
        (s1, h0) \<Rightarrow>
          if (case content_type audio_file of
                None \<Rightarrow> True
              | Some ct \<Rightarrow> ct = [] \<or> \<not> startswith ct ''audio/'')
          then (s1, None,
                Raise (HTTPException 400 ''Invalid file type. Only audio files are allowed.''))
          else (case unexpected e Read_audio of
                  Some err \<Rightarrow> (s1, None, Raise (Unexpected err))
                | None \<Rightarrow>
                    (case safe_transcribe_audio e (data audio_file) of
                       (user_message, transcript_error) \<Rightarrow>
                         if truthy transcript_error
                         then (let fallback_message = FALLBACK_MESSAGES Stt_error;
                                   fallback_audio =
                                     generate_fallback_tts e fallback_message
                                       ''en-US-ken'' ''Neutral''
                               in case getitem s1 sid of
                                    (s2, h) \<Rightarrow>
                                      (s2, user_message,
                                       Return \<lparr>success = False, message = fallback_message,
                                         audio_url = fallback_audio, transcript = None,
                                         llm_response = Some fallback_message,
                                         session_id = sid, message_count = length h,
                                         error_type = Some Stt_error,
                                         fallback_used = True\<rparr>))
                         else (case user_message of
                                 None \<Rightarrow>
                                   (s1, None,
                                    Raise (Unexpected none_not_subscriptable))
                               | Some u \<Rightarrow>
                                   (case prepare_context e sid
                                           (append_message s1 sid
                                              \<lparr>role = ''user'', content = u,
                                               timestamp = now_user e\<rparr>)
                                           u transcript_error of
                                      (s2, fl) \<Rightarrow> (s2, Some u, fl))))))"

text \<open>
  The whole endpoint: an \<open>HTTPException\<close> is raised again (line 993, the left summand);
  any other exception is answered by lines 995-1014.
\<close>

definition chat_with_history ::
  "env \<Rightarrow> store \<Rightarrow> string \<Rightarrow> upload \<Rightarrow> store \<times> (nat \<times> string + chat_response)" where
  "chat_with_history e s sid audio_file =
     (case transcribe e sid s audio_file of
        (s1, user_message, Return r) \<Rightarrow> (s1, Inr r)
      | (s1, user_message, Raise (HTTPException status detail)) \<Rightarrow> (s1, Inl (status, detail))
      | (s1, user_message, Raise (Unexpected err)) \<Rightarrow>
          (let error_type' = get_error_type err;
               fallback_message = FALLBACK_MESSAGES error_type';
               fallback_audio = generate_fallback_tts e fallback_message ''en-US-ken'' ''Neutral''
           in case getitem s1 sid of
                (s2, h) \<Rightarrow>
                  (s2, Inr \<lparr>success = False,
                          message = ''Unexpected error occurred: '' @ fallback_message,
                          audio_url = fallback_audio, transcript = user_message,
                          llm_response = Some fallback_message, session_id = sid,
                          message_count = length h, error_type = Some error_type',
                          fallback_used = True\<rparr>)))"

section \<open>History endpoints\<close>

text \<open>
  \<open>get_chat_history\<close> reads with \<open>chat_sessions.get(session_id, [])\<close>, which stores
  nothing; the store is returned as it was.
\<close>

definition get_chat_history :: "store \<Rightarrow> string \<Rightarrow> store \<times> json" where
  "get_chat_history s sid =
     (let history = (case s sid of None \<Rightarrow> [] | Some h \<Rightarrow> h)
      in (s, JObj [(''session_id'', JStr sid),
                   (''message_count'', JInt (int (length history))),
                   (''messages'', JList (map message_json history)),
                   (''max_history'', JInt (int MAX_HISTORY_MESSAGES))]))"

text \<open>
  \<open>clear_chat_history\<close>, lines 1043-1056:
  \<^verbatim>\<open>
  if session_id in chat_sessions:
      message_count = len(chat_sessions[session_id])
      del chat_sessions[session_id]
      return {"success": True,
              "message": f"Cleared {message_count} messages from session {session_id}",
              "session_id": session_id}
  else:
      return {"success": True, "message": "Session not found or already empty",
              "session_id": session_id}
  \<close>
\<close>

definition clear_chat_history :: "store \<Rightarrow> string \<Rightarrow> store \<times> json" where
  "clear_chat_history s sid =
     (case s sid of
        Some h \<Rightarrow>
          (s(sid := None),
           JObj [(''success'', JBool True),
                 (''message'',
                  JStr (''Cleared '' @ str_nat (length h) @ '' messages from session '' @ sid)),
                 (''session_id'', JStr sid)])
      | None \<Rightarrow>
          (s, JObj [(''success'', JBool True),
                    (''message'', JStr ''Session not found or already empty''),
                    (''session_id'', JStr sid)]))"


section \<open>Sample texts\<close>

text \<open>
  Texts of 3001 or 3002 characters, one more than the budget of 3000 or two, with a single
  sentence terminator or a single space at the index the name says.
\<close>

definition text_terminator_at_2400 :: string where
  "text_terminator_at_2400 = replicate 2400 CHR ''a'' @ ''.'' @ replicate 600 CHR ''a''"

definition text_terminator_at_2401 :: string where
  "text_terminator_at_2401 = replicate 2401 CHR ''a'' @ ''.'' @ replicate 600 CHR ''a''"

definition text_space_at_5 :: string where
  "text_space_at_5 = ''aaaaa '' @ replicate 2995 CHR ''a''"


definition text_space_at_2701 :: string where
  "text_space_at_2701 = replicate 2701 CHR ''a'' @ '' '' @ replicate 300 CHR ''a''"

definition text_space_at_2999 :: string where
  "text_space_at_2999 = replicate 2999 CHR ''a'' @ '' a''"

section \<open>Sample turns\<close>

text \<open>
  A turn in which every service answers: the transcript is \<open>Hello\<close>, the reply
  \<open>Hi there!\<close>, the audio reference \<open>a1\<close>; and a message to fill a history with.
\<close>

definition sample_upload :: upload where
  "sample_upload = \<lparr>filename = Some ''turn.wav'', content_type = Some ''audio/wav'', data = []\<rparr>"

definition sample_env :: env where
  "sample_env =
     \<lparr>murf_client = Some (\<lambda>t v st. Returns (Has_audio_url (Some ''a1''))),
      aai_transcriber =
        Some (\<lambda>b. Returns \<lparr>status_is_error = False, error_text = ''None'',
                              text_attr = Some ''Hello''\<rparr>),
      gemini_client = Some (\<lambda>p. Returns (Some ''Hi there!'')),
      now_user = ''2025-08-10T12:00:00'', now_assistant = ''2025-08-10T12:00:01'',
      unexpected = (\<lambda>p. None)\<rparr>"

text \<open>
  The same turn with the responder not configured and an exception (\<open>disk full\<close>)
  surfacing at the start of STEP 4, after the fallback text has been stored.
\<close>

definition responder_down_fault_env :: env where
  "responder_down_fault_env =
     sample_env\<lparr>gemini_client := None,
                unexpected := (\<lambda>p. if p = Step4 then Some ''disk full'' else None)\<rparr>"

definition old_message :: message where
  "old_message = \<lparr>role = ''user'', content = ''earlier'', timestamp = ''2025-08-10T11:00:00''\<rparr>"

section \<open>Facts about \<open>rfind\<close> and slicing\<close>

lemma rfind_lt: "rfind s c < int (length s)"
  by (induction s) (auto simp: Let_def)
lemma rfind_ge: "-1 \<le> rfind s c"
  by (induction s) (auto simp: Let_def)
lemma rfind_nonneg_iff: "0 \<le> rfind s c \<longleftrightarrow> c \<in> set s"
  by (induction s) (auto simp: Let_def)
lemma rfind_absent: "c \<notin> set s \<Longrightarrow> rfind s c = -1"
  by (induction s) (auto simp: Let_def)
lemma rfind_append:
  "rfind (xs @ ys) c = (if c \<in> set ys then int (length xs) + rfind ys c else rfind xs c)"
proof (induction xs)
  case Nil
  then show ?case by (simp add: rfind_absent)
next
  case (Cons x xs)
  have "0 \<le> rfind ys c \<longleftrightarrow> c \<in> set ys" by (rule rfind_nonneg_iff)
  with Cons show ?case by (auto simp: Let_def rfind_nonneg_iff)
qed
lemma rfind_nth: "0 \<le> rfind s c \<Longrightarrow> s ! nat (rfind s c) = c"
  by (induction s) (auto simp: Let_def nat_add_distrib split: if_splits)
lemma rfind_last: "int j > rfind s c \<Longrightarrow> j < length s \<Longrightarrow> s ! j \<noteq> c"
proof (induction s arbitrary: j)
  case Nil
  then show ?case by simp
next
  case (Cons x xs)
  show ?case
  proof (cases j)
    case 0
    with Cons.prems show ?thesis by (auto simp: Let_def split: if_splits)
  next
    case (Suc k)
    with Cons.prems have "int k > rfind xs c" "k < length xs"
      by (auto simp: Let_def split: if_splits)
    with Cons.IH Suc show ?thesis by simp
  qed
qed

lemma rfind_le:
  assumes "\<forall>k. j < k \<and> k < length s \<longrightarrow> s ! k \<noteq> c"
  shows "rfind s c \<le> int j"
proof (rule ccontr)
  assume "\<not> rfind s c \<le> int j"
  then have gt: "int j < rfind s c" by simp
  then have nn: "0 \<le> rfind s c" by simp
  have "nat (rfind s c) < length s" using rfind_lt[of s c] nn by simp
  moreover have "j < nat (rfind s c)" using gt by simp
  ultimately have "s ! nat (rfind s c) \<noteq> c" using assms by blast
  with rfind_nth[OF nn] show False by simp
qed

lemma rfind_eqI:
  assumes "j < length s" "s ! j = c" "\<forall>k. j < k \<and> k < length s \<longrightarrow> s ! k \<noteq> c"
  shows "rfind s c = int j"
proof -
  have "rfind s c \<le> int j" using assms(3) by (rule rfind_le)
  moreover have "\<not> rfind s c < int j"
    using rfind_last[of s c j] assms(1,2) by blast
  ultimately show ?thesis by simp
qed

lemma last_sentence_eq:
  assumes j: "j < length s"
    and tj: "s ! j \<in> {CHR ''.'', CHR ''!'', CHR ''?''}"
    and after: "\<forall>k. j < k \<and> k < length s \<longrightarrow> s ! k \<notin> {CHR ''.'', CHR ''!'', CHR ''?''}"
  shows "max3 (rfind s CHR ''.'') (rfind s CHR ''!'') (rfind s CHR ''?'') = int j"
proof -
  have le: "rfind s c \<le> int j" if "c \<in> {CHR ''.'', CHR ''!'', CHR ''?''}" for c
    using after that by (intro rfind_le) blast
  have eq: "rfind s (s ! j) = int j"
    using j after tj by (intro rfind_eqI) auto
  from tj consider "s ! j = CHR ''.''" | "s ! j = CHR ''!''" | "s ! j = CHR ''?''" by blast
  then show ?thesis
  proof cases
    case 1
    with eq le[of "CHR ''!''"] le[of "CHR ''?''"] show ?thesis by (simp add: max3_def)
  next
    case 2
    with eq le[of "CHR ''.''"] le[of "CHR ''?''"] show ?thesis by (simp add: max3_def)
  next
    case 3
    with eq le[of "CHR ''.''"] le[of "CHR ''!''"] show ?thesis by (simp add: max3_def)
  qed
qed


lemma window_length: "0 \<le> m \<Longrightarrow> m < int (length T) \<Longrightarrow> length (slice_to T m) = nat m"
  by (simp add: slice_to_def)

lemma window_nth: "0 \<le> m \<Longrightarrow> i < nat m \<Longrightarrow> slice_to T m ! i = T ! i"
  by (simp add: slice_to_def)

lemma slice_to_window:
  assumes "0 \<le> k" "k \<le> m"
  shows "slice_to (slice_to T m) k = take (nat k) T"
proof -
  have "min (nat k) (nat m) = nat k" using assms by simp
  then show ?thesis using assms by (simp add: slice_to_def)
qed

lemma slice_to_length_le: "0 \<le> k \<Longrightarrow> int (length (slice_to s k)) \<le> k"
  by (simp add: slice_to_def)

lemma rfind_space_cases:
  "(rfind s c = -1 \<and> c \<notin> set s) \<or>
   (0 \<le> rfind s c \<and> nat (rfind s c) < length s \<and> s ! nat (rfind s c) = c \<and>
    (\<forall>k. nat (rfind s c) < k \<and> k < length s \<longrightarrow> s ! k \<noteq> c))"
proof (cases "c \<in> set s")
  case False
  then show ?thesis by (simp add: rfind_absent)
next
  case True
  then have nn: "0 \<le> rfind s c" by (simp add: rfind_nonneg_iff)
  have "nat (rfind s c) < length s" using rfind_lt[of s c] nn by simp
  moreover have "s ! nat (rfind s c) = c" using nn by (rule rfind_nth)
  moreover have "\<forall>k. nat (rfind s c) < k \<and> k < length s \<longrightarrow> s ! k \<noteq> c"
  proof (intro allI impI)
    fix k assume k: "nat (rfind s c) < k \<and> k < length s"
    then have "rfind s c < int k" using nn by (simp add: nat_less_iff)
    then show "s ! k \<noteq> c" using k by (intro rfind_last) simp_all
  qed
  ultimately show ?thesis using nn by blast
qed




section \<open>Claims about the truncation\<close>

text \<open>
  Above the threshold the two truncations agree with each other: with the rightmost
  sentence terminator of the window at an index \<open>j\<close> greater than \<open>0.8 * max_chars\<close>,
  both return the first \<open>j + 1\<close> characters and append nothing.
\<close>

lemma sentence_cut_above_threshold:
  assumes long: "max_chars < int (length T)"
    and j: "int j < max_chars"
    and tj: "T ! j \<in> {CHR ''.'', CHR ''!'', CHR ''?''}"
    and after: "\<forall>k. j < k \<and> int k < max_chars \<longrightarrow> T ! k \<notin> {CHR ''.'', CHR ''!'', CHR ''?''}"
    and far: "8 * max_chars < 10 * int j"
  shows "truncate_chat max_chars T = take (j + 1) T \<and> truncate_query max_chars T = take (j + 1) T"
proof -
  have m: "0 \<le> max_chars" using j by simp
  let ?w = "slice_to T max_chars"
  have len: "length ?w = nat max_chars" using m long by (rule window_length)
  have jw: "j < length ?w" using len j by simp
  have "max3 (rfind ?w CHR ''.'') (rfind ?w CHR ''!'') (rfind ?w CHR ''?'') = int j"
  proof (rule last_sentence_eq[OF jw])
    show "?w ! j \<in> {CHR ''.'', CHR ''!'', CHR ''?''}"
        using tj jw len window_nth[OF m, of j T] by simp
    show "\<forall>k. j < k \<and> k < length ?w \<longrightarrow> ?w ! k \<notin> {CHR ''.'', CHR ''!'', CHR ''?''}"
    proof (intro allI impI)
      fix k assume k: "j < k \<and> k < length ?w"
      then have "int k < max_chars" using len by (simp add: zless_nat_eq_int_zless)
      with after k have "T ! k \<notin> {CHR ''.'', CHR ''!'', CHR ''?''}" by blast
      moreover have "?w ! k = T ! k" using window_nth[OF m, of k T] k len by simp
      ultimately show "?w ! k \<notin> {CHR ''.'', CHR ''!'', CHR ''?''}" by simp
    qed
  qed
  moreover have "slice_to ?w (int j + 1) = take (j + 1) T"
    using j slice_to_window[of "int j + 1" max_chars T] by (simp add: nat_add_distrib)
  ultimately show ?thesis
    using long far by (simp add: truncate_chat_def truncate_query_def Let_def)
qed



lemma sentence_cut_above_threshold_example:
  "MAX_MURF_CHARS < int (length text_terminator_at_2401)
   \<and> text_terminator_at_2401 ! 2401 = CHR ''.''
   \<and> 8 * MAX_MURF_CHARS < 10 * int 2401
   \<and> truncate_chat MAX_MURF_CHARS text_terminator_at_2401 = take 2402 text_terminator_at_2401
   \<and> truncate_query MAX_MURF_CHARS text_terminator_at_2401 = take 2402 text_terminator_at_2401"
proof -
  let ?T = text_terminator_at_2401
  have long: "MAX_MURF_CHARS < int (length ?T)"
    by (simp add: text_terminator_at_2401_def MAX_MURF_CHARS_def)
  have j: "int 2401 < MAX_MURF_CHARS" by (simp add: MAX_MURF_CHARS_def)
  have at: "?T ! 2401 = CHR ''.''"
    by (simp add: text_terminator_at_2401_def nth_append)
  then have tj: "?T ! 2401 \<in> {CHR ''.'', CHR ''!'', CHR ''?''}" by simp
  have after: "\<forall>k. 2401 < k \<and> int k < MAX_MURF_CHARS
                  \<longrightarrow> ?T ! k \<notin> {CHR ''.'', CHR ''!'', CHR ''?''}"
    by (auto simp: text_terminator_at_2401_def MAX_MURF_CHARS_def nth_append nth_Cons')
  have far: "8 * MAX_MURF_CHARS < 10 * int 2401" by (simp add: MAX_MURF_CHARS_def)
  from sentence_cut_above_threshold[OF long j tj after far] long at far show ?thesis by simp
qed


lemma window_2400:
  "slice_to text_terminator_at_2400 MAX_MURF_CHARS = replicate 2400 CHR ''a'' @ ''.'' @ replicate 599 CHR ''a''"
  by (simp add: slice_to_def text_terminator_at_2400_def MAX_MURF_CHARS_def)

text \<open>
  C5. The claim asks for the cut at the rightmost sentence terminator also when it stands
  exactly at index \<open>0.8 * max_chars\<close>, and the comment of line 714 asks for it whenever
  at least 80% of the text is kept. The code does not make that cut: for the 3001
  characters of \<open>text_terminator_at_2400\<close>, whose only terminator is at index 2400, both
  call sites return the whole window of 3000 characters followed by the ellipsis instead
  of the first 2401 characters.
\<close>

theorem sentence_cut_at_threshold_not_taken:
  "MAX_MURF_CHARS < int (length text_terminator_at_2400)
   \<and> slice_to text_terminator_at_2400 MAX_MURF_CHARS ! 2400 = CHR ''.''
   \<and> rfind (slice_to text_terminator_at_2400 MAX_MURF_CHARS) CHR ''.'' = 2400
   \<and> 8 * MAX_MURF_CHARS \<le> 10 * 2400
   \<and> truncate_chat MAX_MURF_CHARS text_terminator_at_2400
       = slice_to text_terminator_at_2400 MAX_MURF_CHARS @ ''...''
   \<and> truncate_query MAX_MURF_CHARS text_terminator_at_2400
       = slice_to text_terminator_at_2400 MAX_MURF_CHARS @ ''...''
   \<and> truncate_chat MAX_MURF_CHARS text_terminator_at_2400 \<noteq> take 2401 text_terminator_at_2400
   \<and> truncate_query MAX_MURF_CHARS text_terminator_at_2400 \<noteq> take 2401 text_terminator_at_2400"
proof -
  let ?T = text_terminator_at_2400
  let ?w = "slice_to ?T MAX_MURF_CHARS"
  have long: "MAX_MURF_CHARS < int (length ?T)"
    by (simp add: text_terminator_at_2400_def MAX_MURF_CHARS_def)
  have at: "?w ! 2400 = CHR ''.''"
    by (simp add: window_2400 nth_append)
  have dot: "rfind ?w CHR ''.'' = 2400"
    by (simp add: window_2400 rfind_append rfind_absent)
  have bang: "rfind ?w CHR ''!'' = -1" and quest: "rfind ?w CHR ''?'' = -1"
    and space: "rfind ?w CHR '' '' = -1"
    by (simp_all add: window_2400 rfind_absent)
  have chat: "truncate_chat MAX_MURF_CHARS ?T = ?w @ ''...''"
    using long by (simp add: truncate_chat_def Let_def dot bang quest space max3_def)
       (simp add: MAX_MURF_CHARS_def)
  have query: "truncate_query MAX_MURF_CHARS ?T = ?w @ ''...''"
    using long by (simp add: truncate_query_def Let_def dot bang quest space max3_def)
       (simp add: MAX_MURF_CHARS_def)
  have "length (?w @ ''...'') = 3003" by (simp add: window_2400)
  moreover have "length (take 2401 ?T) = 2401" by (simp add: text_terminator_at_2400_def)
  ultimately have "length (?w @ ''...'') \<noteq> length (take 2401 ?T)" by simp
  then have ne: "?w @ ''...'' \<noteq> take 2401 ?T" by metis
  show ?thesis using long at dot chat query ne by (simp add: MAX_MURF_CHARS_def)
qed




lemma window_space_2701:
  "take 3000 text_space_at_2701 = replicate 2701 CHR ''a'' @ '' '' @ replicate 298 CHR ''a''"
  by (simp add: text_space_at_2701_def)



text \<open>
  C6, amended. For every budget \<open>max_chars \<ge> 0\<close>, truncating twice gives the same
  text as truncating once for every text that fits the budget, or whose window has a
  sentence terminator at an index greater than \<open>0.8 * max_chars\<close>, or whose window has
  no space at one of its last two indices (\<open>max_chars - 2\<close> and \<open>max_chars - 1\<close>).
\<close>

theorem truncate_chat_idempotent:
  assumes m: "0 \<le> max_chars"
    and ok: "int (length T) \<le> max_chars
       \<or> (\<exists>i. int i < max_chars \<and> 8 * max_chars < 10 * int i \<and> T ! i \<in> {CHR ''.'', CHR ''!'', CHR ''?''})
       \<or> (\<forall>j. int j < max_chars \<and> max_chars < int j + 3 \<longrightarrow> T ! j \<noteq> CHR '' '')"
  shows "truncate_chat max_chars (truncate_chat max_chars T) = truncate_chat max_chars T"
proof (cases "int (length T) \<le> max_chars")
  case True
  then show ?thesis by (simp add: truncate_chat_def)
next
  case False
  then have long: "max_chars < int (length T)" by simp
  let ?w = "slice_to T max_chars"
  let ?ls = "max3 (rfind ?w CHR ''.'') (rfind ?w CHR ''!'') (rfind ?w CHR ''?'')"
  let ?sp = "rfind ?w CHR '' ''"
  have len: "length ?w = nat max_chars" using m long by (rule window_length)
  have short: "truncate_chat max_chars R = R" if "int (length R) \<le> max_chars" for R
    using that by (simp add: truncate_chat_def)
  show ?thesis
  proof (cases "8 * max_chars < 10 * ?ls")
    case True
    then have r: "truncate_chat max_chars T = slice_to ?w (?ls + 1)"
      using long by (simp add: truncate_chat_def Let_def)
    have "?ls < int (length ?w)"
      using rfind_lt[of ?w "CHR ''.''"] rfind_lt[of ?w "CHR ''!''"] rfind_lt[of ?w "CHR ''?''"]
      by (simp add: max3_def)
    moreover have "0 \<le> ?ls + 1"
      using rfind_ge[of ?w "CHR ''.''"] by (simp add: max3_def)
    ultimately have "int (length (slice_to ?w (?ls + 1))) \<le> max_chars"
      using len m slice_to_length_le[of "?ls + 1" ?w] by simp
    then show ?thesis unfolding r by (rule short)
  next
    case nols: False
    have noterm: "\<not> (\<exists>i. int i < max_chars \<and> 8 * max_chars < 10 * int i \<and> T ! i \<in> {CHR ''.'', CHR ''!'', CHR ''?''})"
    proof
      assume "\<exists>i. int i < max_chars \<and> 8 * max_chars < 10 * int i \<and> T ! i \<in> {CHR ''.'', CHR ''!'', CHR ''?''}"
      then obtain i where i: "int i < max_chars" "8 * max_chars < 10 * int i"
        "T ! i \<in> {CHR ''.'', CHR ''!'', CHR ''?''}" by blast
      have iw: "i < length ?w" using i(1) len by simp
      have wi: "?w ! i = T ! i" using window_nth[OF m, of i T] iw len by simp
      have "int i \<le> rfind ?w (T ! i)"
      proof (rule ccontr)
        assume "\<not> int i \<le> rfind ?w (T ! i)"
        then have "rfind ?w (T ! i) < int i" by simp
        from rfind_last[OF this iw] wi show False by simp
      qed
      moreover have "rfind ?w (T ! i) \<le> ?ls" using i(3) by (auto simp: max3_def)
      ultimately show False using nols i(2) by simp
    qed
    show ?thesis
    proof (cases "0 < ?sp")
      case False
      then have r: "truncate_chat max_chars T = ?w @ ''...''"
        using long nols by (simp add: truncate_chat_def Let_def)
      have "slice_to (?w @ ''...'') max_chars = ?w"
        using len m by (simp add: slice_to_def)
      moreover have "max_chars < int (length (?w @ ''...''))" using len m by simp
      ultimately have "truncate_chat max_chars (?w @ ''...'') = ?w @ ''...''"
        using nols False by (simp add: truncate_chat_def Let_def)
      then show ?thesis unfolding r .
    next
      case True
      then have r: "truncate_chat max_chars T = slice_to ?w ?sp @ ''...''"
        using long nols by (simp add: truncate_chat_def Let_def)
      have nn: "0 \<le> ?sp" using True by simp
      have spw: "nat ?sp < length ?w" using rfind_lt[of ?w "CHR '' ''"] nn by simp
      have "?w ! nat ?sp = CHR '' ''" using nn by (rule rfind_nth)
      moreover have "?w ! nat ?sp = T ! nat ?sp" using window_nth[OF m, of "nat ?sp" T] spw len by simp
      ultimately have sp: "T ! nat ?sp = CHR '' ''" by simp
      have "int (nat ?sp) < max_chars" using spw len by (simp add: zless_nat_eq_int_zless)
      with ok False noterm sp have "\<not> max_chars < int (nat ?sp) + 3" by blast
      then have "?sp + 3 \<le> max_chars" using nn by simp
      moreover have "length (slice_to ?w ?sp) = nat ?sp" using nn spw by (simp add: slice_to_def)
      ultimately have "int (length (slice_to ?w ?sp @ ''...'')) \<le> max_chars" using nn by simp
      then show ?thesis unfolding r by (rule short)
    qed
  qed
qed



theorem truncate_chat_idempotent_witness:
  "0 \<le> MAX_MURF_CHARS
   \<and> text_space_at_5 ! 2998 \<noteq> CHR '' '' \<and> text_space_at_5 ! 2999 \<noteq> CHR '' ''
   \<and> truncate_chat MAX_MURF_CHARS text_space_at_5 = ''aaaaa...''
   \<and> truncate_chat MAX_MURF_CHARS (truncate_chat MAX_MURF_CHARS text_space_at_5)
       = truncate_chat MAX_MURF_CHARS text_space_at_5"
proof -
  let ?T = text_space_at_5
  have m: "0 \<le> MAX_MURF_CHARS" by (simp add: MAX_MURF_CHARS_def)
  have tail: "\<forall>j. int j < MAX_MURF_CHARS \<and> MAX_MURF_CHARS < int j + 3 \<longrightarrow> ?T ! j \<noteq> CHR '' ''"
    by (auto simp: text_space_at_5_def MAX_MURF_CHARS_def nth_append nth_Cons')
  then have ok: "int (length ?T) \<le> MAX_MURF_CHARS
       \<or> (\<exists>i. int i < MAX_MURF_CHARS \<and> 8 * MAX_MURF_CHARS < 10 * int i
              \<and> ?T ! i \<in> {CHR ''.'', CHR ''!'', CHR ''?''})
       \<or> (\<forall>j. int j < MAX_MURF_CHARS \<and> MAX_MURF_CHARS < int j + 3 \<longrightarrow> ?T ! j \<noteq> CHR '' '')"
    by blast
  have a: "?T ! 2998 \<noteq> CHR '' ''" "?T ! 2999 \<noteq> CHR '' ''"
    by (simp_all add: text_space_at_5_def nth_append)
  have r: "truncate_chat MAX_MURF_CHARS ?T = ''aaaaa...''"
    by (simp add: truncate_chat_def text_space_at_5_def MAX_MURF_CHARS_def slice_to_def
          rfind_append rfind_absent max3_def Let_def)
  from truncate_chat_idempotent[OF m ok] m a r show ?thesis by simp
qed

theorem truncate_chat_idempotent_counterexample:
  "truncate_chat MAX_MURF_CHARS text_space_at_2999 = replicate 2999 CHR ''a'' @ ''...''
   \<and> truncate_chat MAX_MURF_CHARS (truncate_chat MAX_MURF_CHARS text_space_at_2999)
       = replicate 2999 CHR ''a'' @ ''.''
   \<and> truncate_chat MAX_MURF_CHARS (truncate_chat MAX_MURF_CHARS text_space_at_2999)
       \<noteq> truncate_chat MAX_MURF_CHARS text_space_at_2999"
proof -
  have first: "truncate_chat MAX_MURF_CHARS text_space_at_2999 = replicate 2999 CHR ''a'' @ ''...''"
    by (simp add: truncate_chat_def text_space_at_2999_def MAX_MURF_CHARS_def slice_to_def
          rfind_append rfind_absent max3_def Let_def)
  have second: "truncate_chat MAX_MURF_CHARS (replicate 2999 CHR ''a'' @ ''...'')
                  = replicate 2999 CHR ''a'' @ ''.''"
    by (simp add: truncate_chat_def MAX_MURF_CHARS_def slice_to_def
          rfind_append rfind_absent max3_def Let_def)
  have "replicate 2999 CHR ''a'' @ ''.'' \<noteq> replicate 2999 CHR ''a'' @ ''...''" by simp
  with first second show ?thesis by simp
qed


section \<open>Facts about the store\<close>

lemma getitem_Some: "s sid = Some h \<Longrightarrow> getitem s sid = (s, h)"
  by (simp add: getitem_def)

lemma getitem_None: "s sid = None \<Longrightarrow> getitem s sid = (s(sid \<mapsto> []), [])"
  by (simp add: getitem_def)

lemma getitem_stored: "fst (getitem s sid) sid = Some (snd (getitem s sid))"
  by (simp add: getitem_def split: option.splits)

lemma getitem_other: "k \<noteq> sid \<Longrightarrow> fst (getitem s sid) k = s k"
  by (simp add: getitem_def split: option.splits)

lemma getitem_idem: "getitem (fst (getitem s sid)) sid = getitem s sid"
  by (simp add: getitem_def split: option.splits)

lemma getitem_upd: "getitem (s(sid \<mapsto> h)) sid = (s(sid \<mapsto> h), h)"
  by (simp add: getitem_def)

lemma append_message_eq: "append_message s sid m = s(sid \<mapsto> snd (getitem s sid) @ [m])"
  by (simp add: append_message_def getitem_def split: option.splits)

lemma trim_upd:
  "trim (s(sid \<mapsto> h)) sid =
     s(sid \<mapsto> if MAX_HISTORY_MESSAGES * 2 < length h then last_n MAX_HISTORY_MESSAGES h else h)"
  by (simp add: trim_def getitem_upd)

lemma last_n_two:
  assumes "2 \<le> n"
  shows "last_n n (h @ [a, b]) = last_n (n - 2) h @ [a, b]"
  using assms by (simp add: last_n_def)

section \<open>Facts about the service wrappers\<close>

lemma safe_transcribe_audio_cases:
  "(\<exists>u. safe_transcribe_audio e b = (Some u, None))
   \<or> (\<exists>err. safe_transcribe_audio e b = (None, Some err) \<and> err \<noteq> [])"
  by (simp add: safe_transcribe_audio_def split: option.splits call.splits)

lemma safe_generate_llm_response_cases:
  "(\<exists>a. safe_generate_llm_response e p = (Some a, None))
   \<or> (\<exists>err. safe_generate_llm_response e p = (None, Some err) \<and> err \<noteq> [])"
  by (simp add: safe_generate_llm_response_def split: option.splits call.splits)


section \<open>The stages without an unexpected exception\<close>

lemma finalize_returns:
  assumes "unexpected e Step6 = None" "unexpected e Final_report = None"
  shows "\<exists>msg. finalize e sid (s(sid \<mapsto> h)) user_message assistant_message transcript_error
            llm_error tts_error fb et au =
          (trim (s(sid \<mapsto> h)) sid,
           Return \<lparr>success = (\<not> (truthy transcript_error \<or> (truthy llm_error \<and> \<not> fb))),
                  message = msg, audio_url = au, transcript = Some user_message,
                  llm_response = Some assistant_message, session_id = sid,
                  message_count = length (if MAX_HISTORY_MESSAGES * 2 < length h
                                          then last_n MAX_HISTORY_MESSAGES h else h),
                  error_type = et, fallback_used = fb\<rparr>)"
  using assms by (simp add: finalize_def trim_upd getitem_upd Let_def)


lemma prepare_tts_returns:
  assumes nofault: "\<forall>p. unexpected e p = None"
    and tts: "safe_generate_tts e (truncate_chat MAX_MURF_CHARS assistant_message)
                (if fb then ''en-US-ken'' else ''en-US-claire'')
                (if fb then ''Neutral'' else ''Cheerful'') = (au, tts_error)"
  shows "\<exists>msg. prepare_tts e sid (s(sid \<mapsto> h)) user_message assistant_message transcript_error
            llm_error fb et =
          (trim (s(sid \<mapsto> h)) sid,
           Return \<lparr>success = (\<not> (truthy transcript_error \<or> (truthy llm_error \<and> \<not> fb))),
                  message = msg, audio_url = au, transcript = Some user_message,
                  llm_response = Some assistant_message, session_id = sid,
                  message_count = length (if MAX_HISTORY_MESSAGES * 2 < length h
                                          then last_n MAX_HISTORY_MESSAGES h else h),
                  error_type = (if truthy tts_error
                                then (if et = None then Some Tts_error else et) else et),
                  fallback_used = fb\<rparr>)"
proof -
  have s6: "unexpected e Step6 = None" and fr: "unexpected e Final_report = None"
    and s4: "unexpected e Step4 = None" and s5: "unexpected e Step5 = None"
    using nofault by simp_all
  from finalize_returns[OF s6 fr] tts s4 s5 show ?thesis
    by (simp add: prepare_tts_def synthesize_def Let_def)
qed

lemma generate_fallback:
  assumes nofault: "\<forall>p. unexpected e p = None"
    and llm: "safe_generate_llm_response e prompt = (reply, Some err)" "err \<noteq> []"
    and tts: "safe_generate_tts e (truncate_chat MAX_MURF_CHARS (FALLBACK_MESSAGES Llm_error))
                ''en-US-ken'' ''Neutral'' = (au, tts_error)"
  shows "\<exists>msg. generate e sid (s(sid \<mapsto> h)) user_message transcript_error prompt =
          (trim (s(sid \<mapsto> h @ [\<lparr>role = ''assistant'', content = FALLBACK_MESSAGES Llm_error,
                                  timestamp = now_assistant e\<rparr>])) sid,
           Return \<lparr>success = (\<not> truthy transcript_error),
                  message = msg, audio_url = au, transcript = Some user_message,
                  llm_response = Some (FALLBACK_MESSAGES Llm_error), session_id = sid,
                  message_count = length (if MAX_HISTORY_MESSAGES * 2 < length h + 1
                      then last_n MAX_HISTORY_MESSAGES
                             (h @ [\<lparr>role = ''assistant'', content = FALLBACK_MESSAGES Llm_error,
                                    timestamp = now_assistant e\<rparr>])
                      else h @ [\<lparr>role = ''assistant'', content = FALLBACK_MESSAGES Llm_error,
                                    timestamp = now_assistant e\<rparr>]),
                  error_type = Some Llm_error, fallback_used = True\<rparr>)"
proof -
  let ?a = "\<lparr>role = ''assistant'', content = FALLBACK_MESSAGES Llm_error,
             timestamp = now_assistant e\<rparr>"
  have s3: "unexpected e Step3 = None" using nofault by simp
  have tts': "safe_generate_tts e (truncate_chat MAX_MURF_CHARS (FALLBACK_MESSAGES Llm_error))
                (if True then ''en-US-ken'' else ''en-US-claire'')
                (if True then ''Neutral'' else ''Cheerful'') = (au, tts_error)"
    using tts by simp
  have app: "append_message (s(sid \<mapsto> h)) sid ?a = s(sid \<mapsto> h @ [?a])"
    by (simp add: append_message_eq getitem_upd)
  from prepare_tts_returns[OF nofault tts', of sid s "h @ [?a]" user_message transcript_error
         "Some err" "Some Llm_error"]
  obtain msg where
    "prepare_tts e sid (s(sid \<mapsto> h @ [?a])) user_message (FALLBACK_MESSAGES Llm_error)
        transcript_error (Some err) True (Some Llm_error) =
     (trim (s(sid \<mapsto> h @ [?a])) sid,
      Return \<lparr>success = (\<not> (truthy transcript_error \<or> (truthy (Some err) \<and> \<not> True))),
             message = msg, audio_url = au, transcript = Some user_message,
             llm_response = Some (FALLBACK_MESSAGES Llm_error), session_id = sid,
             message_count = length (if MAX_HISTORY_MESSAGES * 2 < length (h @ [?a])
                                     then last_n MAX_HISTORY_MESSAGES (h @ [?a]) else h @ [?a]),
             error_type = (if truthy tts_error
                           then (if Some Llm_error = None then Some Tts_error else Some Llm_error)
                           else Some Llm_error),
             fallback_used = True\<rparr>)"
    by blast
  then show ?thesis using s3 llm app by (simp add: generate_def)
qed


text \<open>The first stage, up to the call of the next one.\<close>

lemma transcribe_proceeds:
  assumes valid: "content_type up = Some ct" "ct \<noteq> []" "startswith ct ''audio/''"
    and nofault: "\<forall>p. unexpected e p = None"
    and stt: "safe_transcribe_audio e (data up) = (Some u, None)"
  shows "transcribe e sid s up =
          (case generate e sid
                  (s(sid \<mapsto> snd (getitem s sid)
                       @ [\<lparr>role = ''user'', content = u, timestamp = now_user e\<rparr>]))
                  u None
                  (build_prompt (last_n MAX_HISTORY_MESSAGES
                     (snd (getitem s sid)
                        @ [\<lparr>role = ''user'', content = u, timestamp = now_user e\<rparr>])))
           of (s2, fl) \<Rightarrow> (s2, Some u, fl))"
proof -
  have r: "unexpected e Read_audio = None" and s2: "unexpected e Step2 = None"
    using nofault by simp_all
  obtain s1 h0 where g: "getitem s sid = (s1, h0)" by (cases "getitem s sid")
  have s1: "s1 sid = Some h0" using getitem_stored[of s sid] g by simp
  have app: "append_message s1 sid m = s(sid \<mapsto> h0 @ [m])" for m
    using g by (simp add: append_message_def getitem_def split: option.splits) auto
  show ?thesis
    using valid r s2 stt g
    by (simp add: transcribe_def prepare_context_def app getitem_upd)
qed


section \<open>Claims about the chat turn and the store\<close>

lemma transcribe_fails:
  assumes valid: "content_type up = Some ct" "ct \<noteq> []" "startswith ct ''audio/''"
    and read: "unexpected e Read_audio = None"
    and stt: "safe_transcribe_audio e (data up) = (um, Some err)" "err \<noteq> []"
  shows "chat_with_history e s sid up =
          (fst (getitem s sid),
           Inr \<lparr>success = False, message = FALLBACK_MESSAGES Stt_error,
                audio_url = generate_fallback_tts e (FALLBACK_MESSAGES Stt_error)
                              ''en-US-ken'' ''Neutral'',
                transcript = None, llm_response = Some (FALLBACK_MESSAGES Stt_error),
                session_id = sid, message_count = length (snd (getitem s sid)),
                error_type = Some Stt_error, fallback_used = True\<rparr>)"
proof -
  obtain s1 h0 where g: "getitem s sid = (s1, h0)" by (cases "getitem s sid")
  have g1: "getitem s1 sid = (s1, h0)" using getitem_idem[of s sid] g by simp
  show ?thesis
    using valid read stt g g1
    by (simp add: chat_with_history_def transcribe_def Let_def)
qed

text \<open>
  C2. Whenever the transcriber is reached (the upload declares an audio type and is read)
  and answers with an error, the turn result has \<open>success = False\<close> and no transcript,
  its \<open>message_count\<close> is the number of messages stored for the session before the call,
  the history that \<open>get_chat_history\<close> shows is the same before and after, and no other
  session changes.
\<close>

theorem transcription_error_keeps_history:
  assumes valid: "content_type up = Some ct" "ct \<noteq> []" "startswith ct ''audio/''"
    and read: "unexpected e Read_audio = None"
    and stt: "snd (safe_transcribe_audio e (data up)) \<noteq> None"
  shows "\<exists>r. snd (chat_with_history e s sid up) = Inr r
             \<and> \<not> success r \<and> transcript r = None \<and> error_type r = Some Stt_error
             \<and> message_count r = (case s sid of None \<Rightarrow> 0 | Some h \<Rightarrow> length h)
             \<and> snd (get_chat_history (fst (chat_with_history e s sid up)) sid)
                 = snd (get_chat_history s sid)
             \<and> (\<forall>k. k \<noteq> sid \<longrightarrow> fst (chat_with_history e s sid up) k = s k)"
proof -
  from stt safe_transcribe_audio_cases[of e "data up"]
  obtain err where e: "safe_transcribe_audio e (data up) = (None, Some err)" "err \<noteq> []"
    by auto
  note run = transcribe_fails[OF valid read e, of s sid]
  have cnt: "length (snd (getitem s sid)) = (case s sid of None \<Rightarrow> 0 | Some h \<Rightarrow> length h)"
    by (simp add: getitem_def split: option.splits)
  have hist: "snd (get_chat_history (fst (getitem s sid)) sid) = snd (get_chat_history s sid)"
    by (simp add: get_chat_history_def getitem_def split: option.splits)
  show ?thesis
    unfolding run using cnt hist by (simp add: getitem_other)
qed

theorem transcription_error_keeps_history_witness:
  "content_type sample_upload = Some ''audio/wav''
   \<and> unexpected (sample_env\<lparr>aai_transcriber := None\<rparr>) Read_audio = None
   \<and> snd (safe_transcribe_audio (sample_env\<lparr>aai_transcriber := None\<rparr>) (data sample_upload))
       \<noteq> None
   \<and> (\<exists>r. snd (chat_with_history (sample_env\<lparr>aai_transcriber := None\<rparr>)
                 (Map.empty(''s1'' \<mapsto> [old_message])) ''s1'' sample_upload) = Inr r
          \<and> \<not> success r \<and> transcript r = None \<and> message_count r = 1)"
proof -
  let ?e = "sample_env\<lparr>aai_transcriber := None\<rparr>"
  have ct: "content_type sample_upload = Some ''audio/wav''" by (simp add: sample_upload_def)
  have ne: "''audio/wav'' \<noteq> []" by simp
  have sw: "startswith ''audio/wav'' ''audio/''" by simp
  have read: "unexpected ?e Read_audio = None" by (simp add: sample_env_def)
  have stt: "snd (safe_transcribe_audio ?e (data sample_upload)) \<noteq> None"
    by (simp add: safe_transcribe_audio_def sample_env_def)
  from transcription_error_keeps_history[OF ct ne sw read stt,
         of "Map.empty(''s1'' \<mapsto> [old_message])" "''s1''"]
  show ?thesis using ct read stt by auto
qed

lemma getitem_dom: "sid \<in> dom (fst (getitem s sid))"
  by (cases "s sid") (auto simp: getitem_def)

lemma append_message_dom: "sid \<in> dom (append_message s sid m)"
  by (simp add: append_message_eq)

lemma trim_dom: "sid \<in> dom (trim s sid)"
  by (cases "s sid") (auto simp: trim_def getitem_def)

lemma finalize_dom:
  assumes "sid \<in> dom s"
  shows "sid \<in> dom (fst (finalize e sid s um am te le tte fb et au))"
proof -
  obtain s2 h where g: "getitem (trim s sid) sid = (s2, h)"
    by (cases "getitem (trim s sid) sid")
  have "sid \<in> dom s2" using getitem_dom[of sid "trim s sid"] g by simp
  then show ?thesis
    using assms trim_dom[of sid s]
    by (simp add: finalize_def g Let_def split: option.splits)
qed

lemma prepare_tts_dom:
  assumes "sid \<in> dom s"
  shows "sid \<in> dom (fst (prepare_tts e sid s um am te le fb et))"
  using assms
  by (simp add: prepare_tts_def synthesize_def Let_def finalize_dom
           split: option.splits prod.splits)

lemma generate_dom:
  assumes "sid \<in> dom s"
  shows "sid \<in> dom (fst (generate e sid s um te p))"
  using assms
  by (simp add: generate_def prepare_tts_dom append_message_dom
           split: option.splits prod.splits)

lemma prepare_context_dom:
  assumes "sid \<in> dom s"
  shows "sid \<in> dom (fst (prepare_context e sid s um te))"
proof -
  from assms obtain h where h: "s sid = Some h" by auto
  have g: "getitem s sid = (s, h)" using h by (simp add: getitem_def)
  show ?thesis
    using assms by (simp add: prepare_context_def g generate_dom split: option.splits)
qed

lemma transcribe_dom: "sid \<in> dom (fst (transcribe e sid s up))"
proof -
  obtain s1 h0 where g: "getitem s sid = (s1, h0)" by (cases "getitem s sid")
  have d: "sid \<in> dom s1" using getitem_dom[of sid s] g by simp
  obtain s2 h where g1: "getitem s1 sid = (s2, h)" by (cases "getitem s1 sid")
  have d1: "sid \<in> dom s2" using getitem_dom[of sid s1] g1 by simp
  have ctx: "sid \<in> dom (fst (prepare_context e sid (append_message s1 sid m) u te))" for m u te
    by (rule prepare_context_dom[OF append_message_dom])
  have ctx': "sid \<in> dom x1"
    if "prepare_context e sid (append_message s1 sid m) u te = (x1, x2)" for m u te x1 x2
    using ctx[of m u te] that by simp
  show ?thesis
    using d d1 ctx'
    by (simp add: transcribe_def g g1 Let_def split: option.splits prod.splits)
qed

text \<open>
  C10. After a chat turn the store has an entry for the session id, whatever the turn's
  outcome; for an id that was absent, a turn whose transcription fails leaves exactly the
  empty list under it. \<open>get_chat_history\<close> returns the store as it found it, so reading
  the history of an absent id creates nothing.
\<close>

theorem chat_creates_session_entry:
  "sid \<in> dom (fst (chat_with_history e s sid up))
   \<and> (s sid = None \<and> content_type up = Some ct \<and> ct \<noteq> [] \<and> startswith ct ''audio/''
        \<and> unexpected e Read_audio = None \<and> snd (safe_transcribe_audio e (data up)) \<noteq> None
      \<longrightarrow> fst (chat_with_history e s sid up) = s(sid \<mapsto> []))
   \<and> fst (get_chat_history s sid) = s"
proof (intro conjI impI)
  obtain s1 um fl where t: "transcribe e sid s up = (s1, um, fl)"
    by (cases "transcribe e sid s up")
  have d: "sid \<in> dom s1" using transcribe_dom[of sid e s up] t by simp
  obtain s2 h where g1: "getitem s1 sid = (s2, h)" by (cases "getitem s1 sid")
  have d1: "sid \<in> dom s2" using getitem_dom[of sid s1] g1 by simp
  show "sid \<in> dom (fst (chat_with_history e s sid up))"
    using d d1
    by (simp add: chat_with_history_def t g1 Let_def split: flow.splits exn.splits)
next
  assume a: "s sid = None \<and> content_type up = Some ct \<and> ct \<noteq> [] \<and> startswith ct ''audio/''
        \<and> unexpected e Read_audio = None \<and> snd (safe_transcribe_audio e (data up)) \<noteq> None"
  with safe_transcribe_audio_cases[of e "data up"]
  obtain err where e: "safe_transcribe_audio e (data up) = (None, Some err)" "err \<noteq> []"
    by auto
  from a have valid: "content_type up = Some ct" "ct \<noteq> []" "startswith ct ''audio/''"
    and read: "unexpected e Read_audio = None" by simp_all
  show "fst (chat_with_history e s sid up) = s(sid \<mapsto> [])"
    unfolding transcribe_fails[OF valid read e, of s sid] using a by (simp add: getitem_None)
next
  show "fst (get_chat_history s sid) = s" by (simp add: get_chat_history_def Let_def)
qed

theorem chat_creates_session_entry_witness:
  "Map.empty ''s1'' = (None :: message list option)
   \<and> ''s1'' \<in> dom (fst (chat_with_history (sample_env\<lparr>aai_transcriber := None\<rparr>)
                         Map.empty ''s1'' sample_upload))
   \<and> fst (chat_with_history (sample_env\<lparr>aai_transcriber := None\<rparr>)
             Map.empty ''s1'' sample_upload) = Map.empty(''s1'' \<mapsto> [])
   \<and> fst (get_chat_history Map.empty ''s1'') = Map.empty"
proof -
  let ?e = "sample_env\<lparr>aai_transcriber := None\<rparr>"
  have hyp: "(Map.empty :: store) ''s1'' = None \<and> content_type sample_upload = Some ''audio/wav''
     \<and> ''audio/wav'' \<noteq> [] \<and> startswith ''audio/wav'' ''audio/''
     \<and> unexpected ?e Read_audio = None
     \<and> snd (safe_transcribe_audio ?e (data sample_upload)) \<noteq> None"
    by (simp add: sample_upload_def sample_env_def safe_transcribe_audio_def)
  from chat_creates_session_entry[of "''s1''" ?e Map.empty sample_upload "''audio/wav''"] hyp
  show ?thesis by blast
qed

text \<open>
  C8. \<open>clear_chat_history\<close> removes the session's entry from the store and touches no
  other session. Its answer tells whether there was an entry: the \<open>message\<close> is
  \<open>Session not found or already empty\<close> exactly when the id was absent (and
  \<open>Cleared n messages from session \<dots>\<close> when it was present); the \<open>success\<close> field is
  \<open>True\<close> in both cases.
\<close>

theorem clear_deletes_and_reports:
  "fst (clear_chat_history s sid) sid = None
   \<and> (\<forall>k. k \<noteq> sid \<longrightarrow> fst (clear_chat_history s sid) k = s k)
   \<and> (\<exists>msg. snd (clear_chat_history s sid)
              = JObj [(''success'', JBool True), (''message'', JStr msg),
                      (''session_id'', JStr sid)]
          \<and> (msg = ''Session not found or already empty'' \<longleftrightarrow> sid \<notin> dom s)
          \<and> (\<forall>h. s sid = Some h \<longrightarrow>
                 msg = ''Cleared '' @ str_nat (length h) @ '' messages from session '' @ sid))"
proof (cases "s sid")
  case None
  then have "clear_chat_history s sid =
      (s, JObj [(''success'', JBool True),
                (''message'', JStr ''Session not found or already empty''),
                (''session_id'', JStr sid)])"
    by (simp add: clear_chat_history_def)
  with None show ?thesis by (simp add: domIff)
next
  case (Some h)
  then have run: "clear_chat_history s sid =
      (s(sid := None),
       JObj [(''success'', JBool True),
             (''message'',
              JStr (''Cleared '' @ str_nat (length h) @ '' messages from session '' @ sid)),
             (''session_id'', JStr sid)])"
    by (simp add: clear_chat_history_def)
  have differ: "''Cleared '' @ str_nat (length h) @ '' messages from session '' @ sid
                  \<noteq> ''Session not found or already empty''"
    by simp
  from Some have present: "sid \<in> dom s" by (simp add: domIff)
  show ?thesis unfolding run using Some differ present by simp
qed

theorem clear_deletes_and_reports_witness:
  "snd (clear_chat_history (Map.empty(''s1'' \<mapsto> [old_message])) ''s1'')
     = JObj [(''success'', JBool True), (''message'', JStr ''Cleared 1 messages from session s1''),
             (''session_id'', JStr ''s1'')]
   \<and> snd (clear_chat_history Map.empty ''s1'')
     = JObj [(''success'', JBool True), (''message'', JStr ''Session not found or already empty''),
             (''session_id'', JStr ''s1'')]
   \<and> fst (clear_chat_history (Map.empty(''s1'' \<mapsto> [old_message])) ''s1'') ''s1'' = None"
proof -
  from clear_deletes_and_reports[of "Map.empty(''s1'' \<mapsto> [old_message])" "''s1''"]
  have "fst (clear_chat_history (Map.empty(''s1'' \<mapsto> [old_message])) ''s1'') ''s1'' = None"
    by blast
  moreover from clear_deletes_and_reports[of Map.empty "''s1''"]
  have "snd (clear_chat_history Map.empty ''s1'')
     = JObj [(''success'', JBool True), (''message'', JStr ''Session not found or already empty''),
             (''session_id'', JStr ''s1'')]"
    by auto
  moreover have "snd (clear_chat_history (Map.empty(''s1'' \<mapsto> [old_message])) ''s1'')
     = JObj [(''success'', JBool True), (''message'', JStr ''Cleared 1 messages from session s1''),
             (''session_id'', JStr ''s1'')]"
    by (simp add: clear_chat_history_def old_message_def)
  ultimately show ?thesis by simp
qed


lemma transcribe_appends:
  assumes valid: "content_type up = Some ct" "ct \<noteq> []" "startswith ct ''audio/''"
    and read: "unexpected e Read_audio = None"
    and stt: "safe_transcribe_audio e (data up) = (Some u, None)"
  shows "transcribe e sid s up =
          (case prepare_context e sid
                  (s(sid \<mapsto> snd (getitem s sid)
                       @ [\<lparr>role = ''user'', content = u, timestamp = now_user e\<rparr>]))
                  u None
           of (s2, fl) \<Rightarrow> (s2, Some u, fl))"
proof -
  obtain s1 h0 where g: "getitem s sid = (s1, h0)" by (cases "getitem s sid")
  have app: "append_message s1 sid m = s(sid \<mapsto> h0 @ [m])" for m
    using g by (simp add: append_message_def getitem_def split: option.splits) auto
  show ?thesis
    using valid read stt g by (simp add: transcribe_def app)
qed

section \<open>Turns ended by an unexpected exception\<close>

lemma chat_handler:
  assumes "transcribe e sid s up = (s1, um, Raise (Unexpected err))" "s1 sid = Some h"
    "n = length h"
  shows "chat_with_history e s sid up =
          (s1, Inr \<lparr>success = False,
                 message = ''Unexpected error occurred: '' @ FALLBACK_MESSAGES (get_error_type err),
                 audio_url = generate_fallback_tts e (FALLBACK_MESSAGES (get_error_type err))
                               ''en-US-ken'' ''Neutral'',
                 transcript = um,
                 llm_response = Some (FALLBACK_MESSAGES (get_error_type err)),
                 session_id = sid, message_count = n,
                 error_type = Some (get_error_type err), fallback_used = True\<rparr>)"
  using assms by (simp add: chat_with_history_def Let_def getitem_Some)


lemma fault_before_reply:
  assumes f: "unexpected e Step2 = Some err
              \<or> (unexpected e Step2 = None \<and> unexpected e Step3 = Some err)"
  shows "prepare_context e sid (s(sid \<mapsto> h)) u te = (s(sid \<mapsto> h), Raise (Unexpected err))"
  using f by (auto simp: prepare_context_def generate_def getitem_upd)

lemma context_to_reply:
  assumes "unexpected e Step2 = None" "unexpected e Step3 = None"
    and "safe_generate_llm_response e (build_prompt (last_n MAX_HISTORY_MESSAGES h)) = (Some a, None)
         \<or> (snd (safe_generate_llm_response e (build_prompt (last_n MAX_HISTORY_MESSAGES h))) \<noteq> None
              \<and> a = FALLBACK_MESSAGES Llm_error)"
  shows "\<exists>le fb et. prepare_context e sid (s(sid \<mapsto> h)) u te =
           prepare_tts e sid
             (s(sid \<mapsto> h @ [\<lparr>role = ''assistant'', content = a, timestamp = now_assistant e\<rparr>]))
             u a te le fb et"
proof -
  let ?p = "build_prompt (last_n MAX_HISTORY_MESSAGES h)"
  have app: "append_message (s(sid \<mapsto> h)) sid m = s(sid \<mapsto> h @ [m])" for m
    by (simp add: append_message_eq getitem_upd)
  from assms(3) show ?thesis
  proof
    assume "safe_generate_llm_response e ?p = (Some a, None)"
    then show ?thesis
      using assms(1,2) by (simp add: prepare_context_def generate_def getitem_upd app) blast
  next
    assume b: "snd (safe_generate_llm_response e ?p) \<noteq> None \<and> a = FALLBACK_MESSAGES Llm_error"
    with safe_generate_llm_response_cases[of e ?p]
    obtain err where "safe_generate_llm_response e ?p = (None, Some err)" "err \<noteq> []" by auto
    then show ?thesis
      using assms(1,2) b by (simp add: prepare_context_def generate_def getitem_upd app) blast
  qed
qed

lemma fault_before_trim:
  assumes "unexpected e Step4 = Some err
           \<or> (unexpected e Step4 = None \<and> unexpected e Step5 = Some err)
           \<or> (unexpected e Step4 = None \<and> unexpected e Step5 = None
               \<and> unexpected e Step6 = Some err)"
  shows "prepare_tts e sid s um am te le fb et = (s, Raise (Unexpected err))"
  using assms
  by (auto simp: prepare_tts_def synthesize_def finalize_def Let_def split: prod.splits)

lemma fault_at_report:
  assumes "unexpected e Step4 = None" "unexpected e Step5 = None" "unexpected e Step6 = None"
    "unexpected e Final_report = Some err"
  shows "prepare_tts e sid s um am te le fb et = (trim s sid, Raise (Unexpected err))"
  using assms
  by (simp add: prepare_tts_def synthesize_def finalize_def Let_def split: prod.splits)



lemma handler_after_user:
  assumes valid: "content_type up = Some ct" "ct \<noteq> []" "startswith ct ''audio/''"
    and read: "unexpected e Read_audio = None"
    and stt: "safe_transcribe_audio e (data up) = (Some u, None)"
    and f: "unexpected e Step2 = Some err
            \<or> (unexpected e Step2 = None \<and> unexpected e Step3 = Some err)"
  shows "chat_with_history e s sid up =
          (s(sid \<mapsto> snd (getitem s sid)
               @ [\<lparr>role = ''user'', content = u, timestamp = now_user e\<rparr>]),
           Inr \<lparr>success = False,
                message = ''Unexpected error occurred: '' @ FALLBACK_MESSAGES (get_error_type err),
                audio_url = generate_fallback_tts e (FALLBACK_MESSAGES (get_error_type err))
                              ''en-US-ken'' ''Neutral'',
                transcript = Some u,
                llm_response = Some (FALLBACK_MESSAGES (get_error_type err)),
                session_id = sid, message_count = length (snd (getitem s sid)) + 1,
                error_type = Some (get_error_type err), fallback_used = True\<rparr>)"
proof -
  let ?h = "snd (getitem s sid) @ [\<lparr>role = ''user'', content = u, timestamp = now_user e\<rparr>]"
  have t: "transcribe e sid s up = (s(sid \<mapsto> ?h), Some u, Raise (Unexpected err))"
    unfolding transcribe_appends[OF valid read stt] fault_before_reply[OF f] by simp
  have st: "(s(sid \<mapsto> ?h)) sid = Some ?h" by simp
  show ?thesis by (rule chat_handler[OF t st]) simp
qed

lemma handler_after_reply:
  assumes valid: "content_type up = Some ct" "ct \<noteq> []" "startswith ct ''audio/''"
    and read: "unexpected e Read_audio = None"
    and stt: "safe_transcribe_audio e (data up) = (Some u, None)"
    and s2: "unexpected e Step2 = None" and s3: "unexpected e Step3 = None"
    and llm: "safe_generate_llm_response e
                (build_prompt (last_n MAX_HISTORY_MESSAGES
                   (snd (getitem s sid)
                      @ [\<lparr>role = ''user'', content = u, timestamp = now_user e\<rparr>])))
               = (Some a, None)
            \<or> (snd (safe_generate_llm_response e
                  (build_prompt (last_n MAX_HISTORY_MESSAGES
                     (snd (getitem s sid)
                        @ [\<lparr>role = ''user'', content = u, timestamp = now_user e\<rparr>]))))
                 \<noteq> None
               \<and> a = FALLBACK_MESSAGES Llm_error)"
    and f: "unexpected e Step4 = Some err
           \<or> (unexpected e Step4 = None \<and> unexpected e Step5 = Some err)
           \<or> (unexpected e Step4 = None \<and> unexpected e Step5 = None
               \<and> unexpected e Step6 = Some err)"
  shows "chat_with_history e s sid up =
          (s(sid \<mapsto> snd (getitem s sid)
               @ [\<lparr>role = ''user'', content = u, timestamp = now_user e\<rparr>,
                  \<lparr>role = ''assistant'', content = a, timestamp = now_assistant e\<rparr>]),
           Inr \<lparr>success = False,
                message = ''Unexpected error occurred: '' @ FALLBACK_MESSAGES (get_error_type err),
                audio_url = generate_fallback_tts e (FALLBACK_MESSAGES (get_error_type err))
                              ''en-US-ken'' ''Neutral'',
                transcript = Some u,
                llm_response = Some (FALLBACK_MESSAGES (get_error_type err)),
                session_id = sid, message_count = length (snd (getitem s sid)) + 2,
                error_type = Some (get_error_type err), fallback_used = True\<rparr>)"
proof -
  let ?um = "\<lparr>role = ''user'', content = u, timestamp = now_user e\<rparr>"
  let ?am = "\<lparr>role = ''assistant'', content = a, timestamp = now_assistant e\<rparr>"
  let ?old = "snd (getitem s sid)"
  from context_to_reply[OF s2 s3 llm, of sid s u None]
  obtain le fb et where c: "prepare_context e sid (s(sid \<mapsto> ?old @ [?um])) u None =
      prepare_tts e sid (s(sid \<mapsto> (?old @ [?um]) @ [?am])) u a None le fb et"
    by blast
  have t: "transcribe e sid s up = (s(sid \<mapsto> ?old @ [?um, ?am]), Some u, Raise (Unexpected err))"
    unfolding transcribe_appends[OF valid read stt] c fault_before_trim[OF f] by simp
  have st: "(s(sid \<mapsto> ?old @ [?um, ?am])) sid = Some (?old @ [?um, ?am])" by simp
  show ?thesis by (rule chat_handler[OF t st]) simp
qed

lemma handler_after_trim:
  assumes valid: "content_type up = Some ct" "ct \<noteq> []" "startswith ct ''audio/''"
    and read: "unexpected e Read_audio = None"
    and stt: "safe_transcribe_audio e (data up) = (Some u, None)"
    and s2: "unexpected e Step2 = None" and s3: "unexpected e Step3 = None"
    and llm: "safe_generate_llm_response e
                (build_prompt (last_n MAX_HISTORY_MESSAGES
                   (snd (getitem s sid)
                      @ [\<lparr>role = ''user'', content = u, timestamp = now_user e\<rparr>])))
               = (Some a, None)
            \<or> (snd (safe_generate_llm_response e
                  (build_prompt (last_n MAX_HISTORY_MESSAGES
                     (snd (getitem s sid)
                        @ [\<lparr>role = ''user'', content = u, timestamp = now_user e\<rparr>]))))
                 \<noteq> None
               \<and> a = FALLBACK_MESSAGES Llm_error)"
    and s4: "unexpected e Step4 = None" and s5: "unexpected e Step5 = None"
    and s6: "unexpected e Step6 = None" and f: "unexpected e Final_report = Some err"
  shows "chat_with_history e s sid up =
          (s(sid \<mapsto>
               (if MAX_HISTORY_MESSAGES * 2 < length (snd (getitem s sid)) + 2
                then last_n (MAX_HISTORY_MESSAGES - 2) (snd (getitem s sid))
                else snd (getitem s sid))
               @ [\<lparr>role = ''user'', content = u, timestamp = now_user e\<rparr>,
                  \<lparr>role = ''assistant'', content = a, timestamp = now_assistant e\<rparr>]),
           Inr \<lparr>success = False,
                message = ''Unexpected error occurred: '' @ FALLBACK_MESSAGES (get_error_type err),
                audio_url = generate_fallback_tts e (FALLBACK_MESSAGES (get_error_type err))
                              ''en-US-ken'' ''Neutral'',
                transcript = Some u,
                llm_response = Some (FALLBACK_MESSAGES (get_error_type err)),
                session_id = sid,
                message_count =
                  length (if MAX_HISTORY_MESSAGES * 2 < length (snd (getitem s sid)) + 2
                          then last_n (MAX_HISTORY_MESSAGES - 2) (snd (getitem s sid))
                          else snd (getitem s sid)) + 2,
                error_type = Some (get_error_type err), fallback_used = True\<rparr>)"
proof -
  let ?old = "snd (getitem s sid)"
  let ?um = "\<lparr>role = ''user'', content = u, timestamp = now_user e\<rparr>"
  let ?am = "\<lparr>role = ''assistant'', content = a, timestamp = now_assistant e\<rparr>"
  let ?kept = "if MAX_HISTORY_MESSAGES * 2 < length ?old + 2
               then last_n (MAX_HISTORY_MESSAGES - 2) ?old else ?old"
  from context_to_reply[OF s2 s3 llm, of sid s u None]
  obtain le fb et where c: "prepare_context e sid (s(sid \<mapsto> ?old @ [?um])) u None =
      prepare_tts e sid (s(sid \<mapsto> (?old @ [?um]) @ [?am])) u a None le fb et"
    by blast
  have two: "last_n MAX_HISTORY_MESSAGES (?old @ [?um, ?am])
               = last_n (MAX_HISTORY_MESSAGES - 2) ?old @ [?um, ?am]"
    by (rule last_n_two) (simp add: MAX_HISTORY_MESSAGES_def)
  have store: "trim (s(sid \<mapsto> (?old @ [?um]) @ [?am])) sid = s(sid \<mapsto> ?kept @ [?um, ?am])"
    using two by (simp add: trim_upd)
  have t: "transcribe e sid s up
             = (s(sid \<mapsto> ?kept @ [?um, ?am]), Some u, Raise (Unexpected err))"
    unfolding transcribe_appends[OF valid read stt] c fault_at_report[OF s4 s5 s6 f] store
    by simp
  have st: "(s(sid \<mapsto> ?kept @ [?um, ?am])) sid = Some (?kept @ [?um, ?am])" by simp
  show ?thesis by (rule chat_handler[OF t st]) simp
qed


lemma responder_down_fault_run:
  "chat_with_history responder_down_fault_env Map.empty ''s1'' sample_upload =
     (Map.empty(''s1'' \<mapsto>
        [\<lparr>role = ''user'', content = ''Hello'', timestamp = ''2025-08-10T12:00:00''\<rparr>,
         \<lparr>role = ''assistant'', content = FALLBACK_MESSAGES Llm_error,
          timestamp = ''2025-08-10T12:00:01''\<rparr>]),
      Inr \<lparr>success = False,
           message = ''Unexpected error occurred: '' @ FALLBACK_MESSAGES General_error,
           audio_url = Some ''a1'', transcript = Some ''Hello'',
           llm_response = Some (FALLBACK_MESSAGES General_error),
           session_id = ''s1'', message_count = 2,
           error_type = Some General_error, fallback_used = True\<rparr>)"
proof -
  let ?d = responder_down_fault_env
  have ct: "content_type sample_upload = Some ''audio/wav''" by (simp add: sample_upload_def)
  have ne: "''audio/wav'' \<noteq> []" by simp
  have sw: "startswith ''audio/wav'' ''audio/''" by simp
  have read: "unexpected ?d Read_audio = None" and s2: "unexpected ?d Step2 = None"
    and s3: "unexpected ?d Step3 = None"
    by (simp_all add: responder_down_fault_env_def)
  have f: "unexpected ?d Step4 = Some ''disk full''
           \<or> (unexpected ?d Step4 = None \<and> unexpected ?d Step5 = Some ''disk full'')
           \<or> (unexpected ?d Step4 = None \<and> unexpected ?d Step5 = None
               \<and> unexpected ?d Step6 = Some ''disk full'')"
    by (simp add: responder_down_fault_env_def)
  have stt: "safe_transcribe_audio ?d (data sample_upload) = (Some ''Hello'', None)"
    by (simp add: safe_transcribe_audio_def responder_down_fault_env_def sample_env_def
          strip_def isspace_def)
  have llm: "safe_generate_llm_response ?d
                (build_prompt (last_n MAX_HISTORY_MESSAGES
                   (snd (getitem Map.empty ''s1'')
                      @ [\<lparr>role = ''user'', content = ''Hello'', timestamp = now_user ?d\<rparr>])))
               = (Some (FALLBACK_MESSAGES Llm_error), None)
            \<or> (snd (safe_generate_llm_response ?d
                  (build_prompt (last_n MAX_HISTORY_MESSAGES
                     (snd (getitem Map.empty ''s1'')
                        @ [\<lparr>role = ''user'', content = ''Hello'', timestamp = now_user ?d\<rparr>]))))
                 \<noteq> None
               \<and> FALLBACK_MESSAGES Llm_error = FALLBACK_MESSAGES Llm_error)"
    by (simp add: safe_generate_llm_response_def responder_down_fault_env_def)
  have cls: "get_error_type ''disk full'' = General_error"
    by (simp add: get_error_type_def lower_def lower_char_def)
  have now: "now_user ?d = ''2025-08-10T12:00:00''" "now_assistant ?d = ''2025-08-10T12:00:01''"
    by (simp_all add: responder_down_fault_env_def sample_env_def)
  have g: "snd (getitem Map.empty ''s1'') = []" by (simp add: getitem_def)
  have audio: "generate_fallback_tts ?d t ''en-US-ken'' ''Neutral'' = Some ''a1''" for t
    by (simp add: generate_fallback_tts_def responder_down_fault_env_def sample_env_def)
  show ?thesis
    unfolding handler_after_reply[OF ct ne sw read stt s2 s3 llm f] cls now g audio
    by simp
qed

text \<open>
  C1, amended. In a turn that runs to its end, in which transcription succeeds and the
  responder answers with an error, the session's stored sequence ends with exactly two new
  messages,
  the user transcript and then the fixed \<open>llm_error\<close> text as the assistant message;
  before them stands the old history (its last 18 messages if the trim threshold of 40 is
  passed). The result has \<open>success = True\<close> and \<open>fallback_used = True\<close>, whatever the
  synthesizer does.
\<close>

theorem responder_error_degrades:
  assumes valid: "content_type up = Some ct" "ct \<noteq> []" "startswith ct ''audio/''"
    and nofault: "\<forall>p. unexpected e p = None"
    and stt: "safe_transcribe_audio e (data up) = (Some u, None)"
    and llm: "snd (safe_generate_llm_response e
                (build_prompt (last_n MAX_HISTORY_MESSAGES
                   (snd (getitem s sid)
                      @ [\<lparr>role = ''user'', content = u, timestamp = now_user e\<rparr>])))) \<noteq> None"
  shows "\<exists>r. chat_with_history e s sid up =
              (s(sid \<mapsto>
                   (if MAX_HISTORY_MESSAGES * 2 < length (snd (getitem s sid)) + 2
                    then last_n (MAX_HISTORY_MESSAGES - 2) (snd (getitem s sid))
                    else snd (getitem s sid))
                   @ [\<lparr>role = ''user'', content = u, timestamp = now_user e\<rparr>,
                      \<lparr>role = ''assistant'', content = FALLBACK_MESSAGES Llm_error,
                       timestamp = now_assistant e\<rparr>]),
               Inr r)
           \<and> success r \<and> fallback_used r \<and> transcript r = Some u
           \<and> llm_response r = Some (FALLBACK_MESSAGES Llm_error)
           \<and> error_type r = Some Llm_error"
proof -
  let ?h0 = "snd (getitem s sid)"
  let ?um = "\<lparr>role = ''user'', content = u, timestamp = now_user e\<rparr>"
  let ?am = "\<lparr>role = ''assistant'', content = FALLBACK_MESSAGES Llm_error,
              timestamp = now_assistant e\<rparr>"
  let ?prompt = "build_prompt (last_n MAX_HISTORY_MESSAGES (?h0 @ [?um]))"
  from llm safe_generate_llm_response_cases[of e ?prompt]
  obtain err where le: "safe_generate_llm_response e ?prompt = (None, Some err)" "err \<noteq> []"
    by auto
  obtain au tte where tts:
    "safe_generate_tts e (truncate_chat MAX_MURF_CHARS (FALLBACK_MESSAGES Llm_error))
       ''en-US-ken'' ''Neutral'' = (au, tte)"
    by (cases "safe_generate_tts e (truncate_chat MAX_MURF_CHARS (FALLBACK_MESSAGES Llm_error))
                 ''en-US-ken'' ''Neutral''")
  from generate_fallback[OF nofault le tts, of sid s "?h0 @ [?um]" u None]
  obtain msg where gen:
    "generate e sid (s(sid \<mapsto> ?h0 @ [?um])) u None ?prompt =
       (trim (s(sid \<mapsto> (?h0 @ [?um]) @ [?am])) sid,
        Return \<lparr>success = (\<not> truthy None), message = msg, audio_url = au,
               transcript = Some u, llm_response = Some (FALLBACK_MESSAGES Llm_error),
               session_id = sid,
               message_count = length (if MAX_HISTORY_MESSAGES * 2 < length (?h0 @ [?um]) + 1
                   then last_n MAX_HISTORY_MESSAGES ((?h0 @ [?um]) @ [?am])
                   else (?h0 @ [?um]) @ [?am]),
               error_type = Some Llm_error, fallback_used = True\<rparr>)"
    by blast
  have two: "last_n MAX_HISTORY_MESSAGES (?h0 @ [?um, ?am])
               = last_n (MAX_HISTORY_MESSAGES - 2) ?h0 @ [?um, ?am]"
    by (rule last_n_two) (simp add: MAX_HISTORY_MESSAGES_def)
  have store: "trim (s(sid \<mapsto> (?h0 @ [?um]) @ [?am])) sid =
          s(sid \<mapsto> (if MAX_HISTORY_MESSAGES * 2 < length ?h0 + 2
                     then last_n (MAX_HISTORY_MESSAGES - 2) ?h0 else ?h0) @ [?um, ?am])"
    using two by (simp add: trim_upd)
  show ?thesis
    unfolding chat_with_history_def transcribe_proceeds[OF valid nofault stt] gen store
    by simp
qed

theorem responder_error_degrades_witness:
  "safe_transcribe_audio (sample_env\<lparr>gemini_client := None, murf_client := None\<rparr>)
       (data sample_upload) = (Some ''Hello'', None)
   \<and> (\<exists>r. chat_with_history (sample_env\<lparr>gemini_client := None, murf_client := None\<rparr>)
             Map.empty ''s1'' sample_upload =
           (Map.empty(''s1'' \<mapsto>
              [\<lparr>role = ''user'', content = ''Hello'', timestamp = ''2025-08-10T12:00:00''\<rparr>,
               \<lparr>role = ''assistant'', content = FALLBACK_MESSAGES Llm_error,
                timestamp = ''2025-08-10T12:00:01''\<rparr>]), Inr r)
          \<and> success r \<and> fallback_used r)"
proof -
  let ?e = "sample_env\<lparr>gemini_client := None, murf_client := None\<rparr>"
  have ct: "content_type sample_upload = Some ''audio/wav''" by (simp add: sample_upload_def)
  have ne: "''audio/wav'' \<noteq> []" by simp
  have sw: "startswith ''audio/wav'' ''audio/''" by simp
  have nofault: "\<forall>p. unexpected ?e p = None" by (simp add: sample_env_def)
  have stt: "safe_transcribe_audio ?e (data sample_upload) = (Some ''Hello'', None)"
    by (simp add: safe_transcribe_audio_def sample_env_def strip_def isspace_def)
  have llm: "snd (safe_generate_llm_response ?e
                (build_prompt (last_n MAX_HISTORY_MESSAGES
                   (snd (getitem Map.empty ''s1'')
                      @ [\<lparr>role = ''user'', content = ''Hello'', timestamp = now_user ?e\<rparr>])))) \<noteq> None"
    by (simp add: safe_generate_llm_response_def sample_env_def)
  have now: "now_user ?e = ''2025-08-10T12:00:00''" "now_assistant ?e = ''2025-08-10T12:00:01''"
    by (simp_all add: sample_env_def)
  have g: "snd (getitem Map.empty ''s1'') = []" by (simp add: getitem_def)
  from responder_error_degrades[OF ct ne sw nofault stt llm]
  show ?thesis using stt unfolding now g by (simp add: MAX_HISTORY_MESSAGES_def) blast
qed


theorem responder_error_degrades_counterexample:
  "safe_transcribe_audio responder_down_fault_env (data sample_upload) = (Some ''Hello'', None)
   \<and> gemini_client responder_down_fault_env = None
   \<and> snd (chat_with_history responder_down_fault_env Map.empty ''s1'' sample_upload)
       = Inr \<lparr>success = False,
              message = ''Unexpected error occurred: '' @ FALLBACK_MESSAGES General_error,
              audio_url = Some ''a1'', transcript = Some ''Hello'',
              llm_response = Some (FALLBACK_MESSAGES General_error),
              session_id = ''s1'', message_count = 2,
              error_type = Some General_error, fallback_used = True\<rparr>
   \<and> safe_transcribe_audio (sample_env\<lparr>gemini_client := None\<rparr>) (data sample_upload)
       = (Some ''Hello'', None)
   \<and> gemini_client (sample_env\<lparr>gemini_client := None\<rparr>) = None
   \<and> length (snd (getitem (Map.empty(''s1'' \<mapsto> replicate 40 old_message)) ''s1'')) = 40
   \<and> fst (chat_with_history (sample_env\<lparr>gemini_client := None\<rparr>)
            (Map.empty(''s1'' \<mapsto> replicate 40 old_message)) ''s1'' sample_upload) ''s1''
       = Some (replicate 18 old_message
               @ [\<lparr>role = ''user'', content = ''Hello'', timestamp = ''2025-08-10T12:00:00''\<rparr>,
                  \<lparr>role = ''assistant'', content = FALLBACK_MESSAGES Llm_error,
                   timestamp = ''2025-08-10T12:00:01''\<rparr>])
   \<and> length (replicate 18 old_message
               @ [\<lparr>role = ''user'', content = ''Hello'', timestamp = ''2025-08-10T12:00:00''\<rparr>,
                  \<lparr>role = ''assistant'', content = FALLBACK_MESSAGES Llm_error,
                   timestamp = ''2025-08-10T12:00:01''\<rparr>]) = 20"
proof -
  let ?d = responder_down_fault_env
  let ?e = "sample_env\<lparr>gemini_client := None\<rparr>"
  let ?s = "Map.empty(''s1'' \<mapsto> replicate 40 old_message)"
  let ?um = "\<lparr>role = ''user'', content = ''Hello'', timestamp = now_user ?e\<rparr>"
  let ?am = "\<lparr>role = ''assistant'', content = FALLBACK_MESSAGES Llm_error,
              timestamp = now_assistant ?e\<rparr>"
  have dstt: "safe_transcribe_audio ?d (data sample_upload) = (Some ''Hello'', None)"
    by (simp add: safe_transcribe_audio_def responder_down_fault_env_def sample_env_def
          strip_def isspace_def)
  have dg: "gemini_client ?d = None" by (simp add: responder_down_fault_env_def)
  have ct: "content_type sample_upload = Some ''audio/wav''" by (simp add: sample_upload_def)
  have ne: "''audio/wav'' \<noteq> []" by simp
  have sw: "startswith ''audio/wav'' ''audio/''" by simp
  have nofault: "\<forall>p. unexpected ?e p = None" by (simp add: sample_env_def)
  have stt: "safe_transcribe_audio ?e (data sample_upload) = (Some ''Hello'', None)"
    by (simp add: safe_transcribe_audio_def sample_env_def strip_def isspace_def)
  have eg: "gemini_client ?e = None" by simp
  have g: "snd (getitem ?s ''s1'') = replicate 40 old_message" by (simp add: getitem_def)
  have le: "safe_generate_llm_response ?e p = (None, Some ''AI language model is not available'')"
    for p by (simp add: safe_generate_llm_response_def)
  have ne2: "''AI language model is not available'' \<noteq> []" by simp
  obtain au tte where tts:
    "safe_generate_tts ?e (truncate_chat MAX_MURF_CHARS (FALLBACK_MESSAGES Llm_error))
       ''en-US-ken'' ''Neutral'' = (au, tte)"
    by (cases "safe_generate_tts ?e (truncate_chat MAX_MURF_CHARS (FALLBACK_MESSAGES Llm_error))
                 ''en-US-ken'' ''Neutral''")
  from generate_fallback[OF nofault le ne2 tts, of "''s1''" Map.empty
         "replicate 40 old_message @ [?um]" "''Hello''" None]
  obtain r where gen:
    "generate ?e ''s1'' (Map.empty(''s1'' \<mapsto> replicate 40 old_message @ [?um])) ''Hello'' None
        (build_prompt (last_n MAX_HISTORY_MESSAGES (replicate 40 old_message @ [?um]))) =
       (trim (Map.empty(''s1'' \<mapsto> (replicate 40 old_message @ [?um]) @ [?am])) ''s1'',
        Return r)"
    by blast
  have keep: "trim (Map.empty(''s1'' \<mapsto> (replicate 40 old_message @ [?um]) @ [?am])) ''s1''
                = Map.empty(''s1'' \<mapsto> replicate 18 old_message @ [?um, ?am])"
    by (simp add: trim_upd last_n_def MAX_HISTORY_MESSAGES_def)
  have upd: "?s(''s1'' \<mapsto> xs) = Map.empty(''s1'' \<mapsto> xs)" for xs by simp
  have now: "now_user ?e = ''2025-08-10T12:00:00''" "now_assistant ?e = ''2025-08-10T12:00:01''"
    by (simp_all add: sample_env_def)
  have store: "fst (chat_with_history ?e ?s ''s1'' sample_upload) ''s1''
       = Some (replicate 18 old_message @ [?um, ?am])"
    unfolding chat_with_history_def transcribe_proceeds[OF ct ne sw nofault stt] g upd gen keep
    by simp
  show ?thesis
    using dstt dg responder_down_fault_run stt eg g store unfolding now by simp
qed





text \<open>
  C9. When an unexpected exception surfaces after the user message has been appended, at
  any of the later fault points (the starts of STEP 2 to STEP 6 and the final report),
  the handler answers with \<open>success = False\<close> and \<open>fallback_used = True\<close>. The
  messages appended so far stay in the session's history: the user message alone if the
  exception comes before the reply is stored, the user message and the assistant message
  (the reply or the fixed \<open>llm_error\<close> text) after that; \<open>message_count\<close> counts them.
  Only an exception after the trim of STEP 6 finds the older messages cut to the last 18.
\<close>

theorem unexpected_error_keeps_appended:
  assumes valid: "content_type up = Some ct" "ct \<noteq> []" "startswith ct ''audio/''"
    and read: "unexpected e Read_audio = None"
    and stt: "safe_transcribe_audio e (data up) = (Some u, None)"
  shows "(\<forall>err. unexpected e Step2 = Some err
                \<or> (unexpected e Step2 = None \<and> unexpected e Step3 = Some err) \<longrightarrow>
            (\<exists>r. chat_with_history e s sid up =
                   (s(sid \<mapsto> snd (getitem s sid)
                        @ [\<lparr>role = ''user'', content = u, timestamp = now_user e\<rparr>]),
                    Inr r)
                \<and> \<not> success r \<and> fallback_used r \<and> transcript r = Some u
                \<and> message_count r = length (snd (getitem s sid)) + 1))
       \<and> (\<forall>err a. unexpected e Step2 = None \<and> unexpected e Step3 = None
              \<and> (safe_generate_llm_response e
                      (build_prompt (last_n MAX_HISTORY_MESSAGES
                         (snd (getitem s sid)
                            @ [\<lparr>role = ''user'', content = u, timestamp = now_user e\<rparr>])))
                     = (Some a, None)
                  \<or> (snd (safe_generate_llm_response e
                        (build_prompt (last_n MAX_HISTORY_MESSAGES
                           (snd (getitem s sid)
                              @ [\<lparr>role = ''user'', content = u, timestamp = now_user e\<rparr>]))))
                       \<noteq> None
                     \<and> a = FALLBACK_MESSAGES Llm_error)) \<longrightarrow>
            ((unexpected e Step4 = Some err
               \<or> (unexpected e Step4 = None \<and> unexpected e Step5 = Some err)
               \<or> (unexpected e Step4 = None \<and> unexpected e Step5 = None
                   \<and> unexpected e Step6 = Some err) \<longrightarrow>
              (\<exists>r. chat_with_history e s sid up =
                     (s(sid \<mapsto> snd (getitem s sid)
                          @ [\<lparr>role = ''user'', content = u, timestamp = now_user e\<rparr>,
                             \<lparr>role = ''assistant'', content = a,
                              timestamp = now_assistant e\<rparr>]),
                      Inr r)
                  \<and> \<not> success r \<and> fallback_used r \<and> transcript r = Some u
                  \<and> message_count r = length (snd (getitem s sid)) + 2))
           \<and> (unexpected e Step4 = None \<and> unexpected e Step5 = None
                \<and> unexpected e Step6 = None \<and> unexpected e Final_report = Some err \<longrightarrow>
              (\<exists>r. chat_with_history e s sid up =
                     (s(sid \<mapsto>
                          (if MAX_HISTORY_MESSAGES * 2 < length (snd (getitem s sid)) + 2
                           then last_n (MAX_HISTORY_MESSAGES - 2) (snd (getitem s sid))
                           else snd (getitem s sid))
                          @ [\<lparr>role = ''user'', content = u, timestamp = now_user e\<rparr>,
                             \<lparr>role = ''assistant'', content = a,
                              timestamp = now_assistant e\<rparr>]),
                      Inr r)
                  \<and> \<not> success r \<and> fallback_used r \<and> transcript r = Some u
                  \<and> message_count r =
                      length (if MAX_HISTORY_MESSAGES * 2 < length (snd (getitem s sid)) + 2
                              then last_n (MAX_HISTORY_MESSAGES - 2) (snd (getitem s sid))
                              else snd (getitem s sid)) + 2))))"
proof (intro conjI allI impI)
  fix err
  assume f: "unexpected e Step2 = Some err
             \<or> (unexpected e Step2 = None \<and> unexpected e Step3 = Some err)"
  show "\<exists>r. chat_with_history e s sid up =
               (s(sid \<mapsto> snd (getitem s sid)
                    @ [\<lparr>role = ''user'', content = u, timestamp = now_user e\<rparr>]),
                Inr r)
            \<and> \<not> success r \<and> fallback_used r \<and> transcript r = Some u
            \<and> message_count r = length (snd (getitem s sid)) + 1"
    unfolding handler_after_user[OF valid read stt f] by simp
next
  fix err a
  assume pre: "unexpected e Step2 = None \<and> unexpected e Step3 = None
              \<and> (safe_generate_llm_response e
                      (build_prompt (last_n MAX_HISTORY_MESSAGES
                         (snd (getitem s sid)
                            @ [\<lparr>role = ''user'', content = u, timestamp = now_user e\<rparr>])))
                     = (Some a, None)
                  \<or> (snd (safe_generate_llm_response e
                        (build_prompt (last_n MAX_HISTORY_MESSAGES
                           (snd (getitem s sid)
                              @ [\<lparr>role = ''user'', content = u, timestamp = now_user e\<rparr>]))))
                       \<noteq> None
                     \<and> a = FALLBACK_MESSAGES Llm_error))"
  assume f: "unexpected e Step4 = Some err
               \<or> (unexpected e Step4 = None \<and> unexpected e Step5 = Some err)
               \<or> (unexpected e Step4 = None \<and> unexpected e Step5 = None
                   \<and> unexpected e Step6 = Some err)"
  from pre have s2: "unexpected e Step2 = None" and s3: "unexpected e Step3 = None" by simp_all
  from pre have llm: "safe_generate_llm_response e
                      (build_prompt (last_n MAX_HISTORY_MESSAGES
                         (snd (getitem s sid)
                            @ [\<lparr>role = ''user'', content = u, timestamp = now_user e\<rparr>])))
                     = (Some a, None)
                  \<or> (snd (safe_generate_llm_response e
                        (build_prompt (last_n MAX_HISTORY_MESSAGES
                           (snd (getitem s sid)
                              @ [\<lparr>role = ''user'', content = u, timestamp = now_user e\<rparr>]))))
                       \<noteq> None
                     \<and> a = FALLBACK_MESSAGES Llm_error)" by simp
  show "\<exists>r. chat_with_history e s sid up =
               (s(sid \<mapsto> snd (getitem s sid)
                    @ [\<lparr>role = ''user'', content = u, timestamp = now_user e\<rparr>,
                       \<lparr>role = ''assistant'', content = a, timestamp = now_assistant e\<rparr>]),
                Inr r)
            \<and> \<not> success r \<and> fallback_used r \<and> transcript r = Some u
            \<and> message_count r = length (snd (getitem s sid)) + 2"
    unfolding handler_after_reply[OF valid read stt s2 s3 llm f] by simp
next
  fix err a
  assume pre: "unexpected e Step2 = None \<and> unexpected e Step3 = None
              \<and> (safe_generate_llm_response e
                      (build_prompt (last_n MAX_HISTORY_MESSAGES
                         (snd (getitem s sid)
                            @ [\<lparr>role = ''user'', content = u, timestamp = now_user e\<rparr>])))
                     = (Some a, None)
                  \<or> (snd (safe_generate_llm_response e
                        (build_prompt (last_n MAX_HISTORY_MESSAGES
                           (snd (getitem s sid)
                              @ [\<lparr>role = ''user'', content = u, timestamp = now_user e\<rparr>]))))
                       \<noteq> None
                     \<and> a = FALLBACK_MESSAGES Llm_error))"
  assume f: "unexpected e Step4 = None \<and> unexpected e Step5 = None
                \<and> unexpected e Step6 = None \<and> unexpected e Final_report = Some err"
  from pre have s2: "unexpected e Step2 = None" and s3: "unexpected e Step3 = None" by simp_all
  from f have s4: "unexpected e Step4 = None" and s5: "unexpected e Step5 = None"
    and s6: "unexpected e Step6 = None" and fr: "unexpected e Final_report = Some err"
    by simp_all
  from pre have llm: "safe_generate_llm_response e
                      (build_prompt (last_n MAX_HISTORY_MESSAGES
                         (snd (getitem s sid)
                            @ [\<lparr>role = ''user'', content = u, timestamp = now_user e\<rparr>])))
                     = (Some a, None)
                  \<or> (snd (safe_generate_llm_response e
                        (build_prompt (last_n MAX_HISTORY_MESSAGES
                           (snd (getitem s sid)
                              @ [\<lparr>role = ''user'', content = u, timestamp = now_user e\<rparr>]))))
                       \<noteq> None
                     \<and> a = FALLBACK_MESSAGES Llm_error)" by simp
  show "\<exists>r. chat_with_history e s sid up =
               (s(sid \<mapsto>
                    (if MAX_HISTORY_MESSAGES * 2 < length (snd (getitem s sid)) + 2
                     then last_n (MAX_HISTORY_MESSAGES - 2) (snd (getitem s sid))
                     else snd (getitem s sid))
                    @ [\<lparr>role = ''user'', content = u, timestamp = now_user e\<rparr>,
                       \<lparr>role = ''assistant'', content = a, timestamp = now_assistant e\<rparr>]),
                Inr r)
            \<and> \<not> success r \<and> fallback_used r \<and> transcript r = Some u
            \<and> message_count r =
                length (if MAX_HISTORY_MESSAGES * 2 < length (snd (getitem s sid)) + 2
                        then last_n (MAX_HISTORY_MESSAGES - 2) (snd (getitem s sid))
                        else snd (getitem s sid)) + 2"
    unfolding handler_after_trim[OF valid read stt s2 s3 llm s4 s5 s6 fr] by simp
qed

theorem unexpected_error_keeps_appended_witness:
  "unexpected (sample_env\<lparr>unexpected := (\<lambda>p. if p = Step2 then Some ''disk full'' else None)\<rparr>)
      Step2 = Some ''disk full''
   \<and> (\<exists>r. chat_with_history
             (sample_env\<lparr>unexpected := (\<lambda>p. if p = Step2 then Some ''disk full'' else None)\<rparr>)
             (Map.empty(''s1'' \<mapsto> [old_message])) ''s1'' sample_upload =
           (Map.empty(''s1'' \<mapsto>
              [old_message,
               \<lparr>role = ''user'', content = ''Hello'', timestamp = ''2025-08-10T12:00:00''\<rparr>]),
            Inr r)
          \<and> \<not> success r \<and> fallback_used r \<and> message_count r = 2)
   \<and> unexpected responder_down_fault_env Step4 = Some ''disk full''
   \<and> (\<exists>r. chat_with_history responder_down_fault_env
             (Map.empty(''s1'' \<mapsto> [old_message])) ''s1'' sample_upload =
           (Map.empty(''s1'' \<mapsto>
              [old_message,
               \<lparr>role = ''user'', content = ''Hello'', timestamp = ''2025-08-10T12:00:00''\<rparr>,
               \<lparr>role = ''assistant'', content = FALLBACK_MESSAGES Llm_error,
                timestamp = ''2025-08-10T12:00:01''\<rparr>]),
            Inr r)
          \<and> \<not> success r \<and> fallback_used r \<and> message_count r = 3)"
proof -
  let ?e = "sample_env\<lparr>unexpected := (\<lambda>p. if p = Step2 then Some ''disk full'' else None)\<rparr>"
  let ?d = responder_down_fault_env
  let ?s = "Map.empty(''s1'' \<mapsto> [old_message])"
  have ct: "content_type sample_upload = Some ''audio/wav''" by (simp add: sample_upload_def)
  have ne: "''audio/wav'' \<noteq> []" by simp
  have sw: "startswith ''audio/wav'' ''audio/''" by simp
  have g: "snd (getitem ?s ''s1'') = [old_message]" by (simp add: getitem_def)
  have read: "unexpected ?e Read_audio = None" by simp
  have f: "unexpected ?e Step2 = Some ''disk full''" by simp
  have stt: "safe_transcribe_audio ?e (data sample_upload) = (Some ''Hello'', None)"
    by (simp add: safe_transcribe_audio_def sample_env_def strip_def isspace_def)
  have now: "now_user ?e = ''2025-08-10T12:00:00''" by (simp add: sample_env_def)
  from unexpected_error_keeps_appended[OF ct ne sw read stt, of ?s "''s1''"] f
  obtain r where run: "chat_with_history ?e ?s ''s1'' sample_upload =
               (?s(''s1'' \<mapsto> snd (getitem ?s ''s1'')
                    @ [\<lparr>role = ''user'', content = ''Hello'', timestamp = now_user ?e\<rparr>]),
                Inr r)"
    and res: "\<not> success r" "fallback_used r"
    and cnt: "message_count r = length (snd (getitem ?s ''s1'')) + 1"
    by blast
  have cnt2: "message_count r = 2" using cnt unfolding g by simp
  have run2: "chat_with_history ?e ?s ''s1'' sample_upload =
           (Map.empty(''s1'' \<mapsto>
              [old_message,
               \<lparr>role = ''user'', content = ''Hello'', timestamp = ''2025-08-10T12:00:00''\<rparr>]),
            Inr r)"
    using run unfolding g now by simp
  have first: "\<exists>r. chat_with_history ?e ?s ''s1'' sample_upload =
           (Map.empty(''s1'' \<mapsto>
              [old_message,
               \<lparr>role = ''user'', content = ''Hello'', timestamp = ''2025-08-10T12:00:00''\<rparr>]),
            Inr r)
          \<and> \<not> success r \<and> fallback_used r \<and> message_count r = 2"
    using run2 res cnt2 by blast
  have dread: "unexpected ?d Read_audio = None" and d2: "unexpected ?d Step2 = None"
    and d3: "unexpected ?d Step3 = None" and d4: "unexpected ?d Step4 = Some ''disk full''"
    by (simp_all add: responder_down_fault_env_def)
  have dstt: "safe_transcribe_audio ?d (data sample_upload) = (Some ''Hello'', None)"
    by (simp add: safe_transcribe_audio_def responder_down_fault_env_def sample_env_def
          strip_def isspace_def)
  have dnow: "now_user ?d = ''2025-08-10T12:00:00''" "now_assistant ?d = ''2025-08-10T12:00:01''"
    by (simp_all add: responder_down_fault_env_def sample_env_def)
  have dllm: "snd (safe_generate_llm_response ?d p) \<noteq> None" for p
    by (simp add: safe_generate_llm_response_def responder_down_fault_env_def)
  from unexpected_error_keeps_appended[OF ct ne sw dread dstt, of ?s "''s1''"]
       d2 d3 d4 dllm
  obtain r' where drun: "chat_with_history ?d ?s ''s1'' sample_upload =
               (?s(''s1'' \<mapsto> snd (getitem ?s ''s1'')
                    @ [\<lparr>role = ''user'', content = ''Hello'', timestamp = now_user ?d\<rparr>,
                       \<lparr>role = ''assistant'', content = FALLBACK_MESSAGES Llm_error,
                        timestamp = now_assistant ?d\<rparr>]),
                Inr r')"
    and dres: "\<not> success r'" "fallback_used r'"
    and dcnt: "message_count r' = length (snd (getitem ?s ''s1'')) + 2"
    by blast
  have dcnt2: "message_count r' = 3" using dcnt unfolding g by simp
  have drun2: "chat_with_history ?d ?s ''s1'' sample_upload =
           (Map.empty(''s1'' \<mapsto>
              [old_message,
               \<lparr>role = ''user'', content = ''Hello'', timestamp = ''2025-08-10T12:00:00''\<rparr>,
               \<lparr>role = ''assistant'', content = FALLBACK_MESSAGES Llm_error,
                timestamp = ''2025-08-10T12:00:01''\<rparr>]),
            Inr r')"
    using drun unfolding g dnow by simp
  have second: "\<exists>r. chat_with_history ?d ?s ''s1'' sample_upload =
           (Map.empty(''s1'' \<mapsto>
              [old_message,
               \<lparr>role = ''user'', content = ''Hello'', timestamp = ''2025-08-10T12:00:00''\<rparr>,
               \<lparr>role = ''assistant'', content = FALLBACK_MESSAGES Llm_error,
                timestamp = ''2025-08-10T12:00:01''\<rparr>]),
            Inr r)
          \<and> \<not> success r \<and> fallback_used r \<and> message_count r = 3"
    using drun2 dres dcnt2 by blast
  from f first d4 second show ?thesis by blast
qed








end
